theory Spec2Isabelle
  imports Main "HOL-Library.Sublist" "HOL-Library.AList"
begin

section \<open>Runtime functions of JavaScript and Node used by the sources\<close>

text \<open>
  JavaScript strings are modelled as \<^typ>\<open>string\<close>. The built-in functions the three
  sources call are written out here: truthiness of a string, \<^verbatim>\<open>Array.prototype.join\<close>,
  \<^verbatim>\<open>String.prototype.includes\<close>, \<^verbatim>\<open>startsWith\<close>, \<^verbatim>\<open>replace\<close> with a string
  pattern, \<^verbatim>\<open>JSON.stringify\<close> on a string, and \<^verbatim>\<open>path.join\<close> of Node in its
  POSIX flavour.
\<close>

text \<open>A string is truthy when it is not empty; \<^verbatim>\<open>undefined\<close> is falsy.\<close>

definition truthy :: "string option \<Rightarrow> bool" where
  "truthy v = (case v of None \<Rightarrow> False | Some s \<Rightarrow> s \<noteq> [])"

text \<open>\<^verbatim>\<open>xs.join(sep)\<close> on an array of strings.\<close>

fun join :: "string \<Rightarrow> string list \<Rightarrow> string" where
  "join sep [] = []"
| "join sep [x] = x"
| "join sep (x # y # ys) = x @ sep @ join sep (y # ys)"

text \<open>\<^verbatim>\<open>s.startsWith(p)\<close> and \<^verbatim>\<open>s.includes(a)\<close>.\<close>

fun startsWith :: "string \<Rightarrow> string \<Rightarrow> bool" where
  "startsWith s [] = True"
| "startsWith [] (p # ps) = False"
| "startsWith (c # cs) (p # ps) = (c = p \<and> startsWith cs ps)"

fun includes_str :: "string \<Rightarrow> string \<Rightarrow> bool" where
  "includes_str [] a = (a = [])"
| "includes_str (c # cs) a = (startsWith (c # cs) a \<or> includes_str cs a)"

text \<open>
  \<^verbatim>\<open>s.replace(pat, rep)\<close> with a string pattern replaces the first occurrence of the
  pattern only (the replacements of the source, \<^verbatim>\<open>''\<close> and \<^verbatim>\<open>'-'\<close>, hold no
  \<^verbatim>\<open>$\<close> pattern).
\<close>

fun replace :: "string \<Rightarrow> string \<Rightarrow> string \<Rightarrow> string" where
  "replace [] pat rep = (if pat = [] then rep else [])"
| "replace (c # cs) pat rep =
     (if startsWith (c # cs) pat then rep @ drop (length pat) (c # cs)
      else c # replace cs pat rep)"

subsection \<open>JSON.stringify on a string\<close>

definition hexDigit :: "nat \<Rightarrow> char" where
  "hexDigit n = ''0123456789abcdef'' ! (n mod 16)"

text \<open>
  The quote and the backslash are escaped, the control characters below \<^verbatim>\<open>0x20\<close> have a
  short escape or the form \<^verbatim>\<open>\u00XX\<close>; every other character stands for itself.
\<close>

definition quoteJSONChar :: "char \<Rightarrow> string" where
  "quoteJSONChar c =
     (if c = CHR 0x08 then [CHR 0x5C, CHR ''b'']
      else if c = CHR 0x09 then [CHR 0x5C, CHR ''t'']
      else if c = CHR 0x0A then [CHR 0x5C, CHR ''n'']
      else if c = CHR 0x0C then [CHR 0x5C, CHR ''f'']
      else if c = CHR 0x0D then [CHR 0x5C, CHR ''r'']
      else if c = CHR 0x22 then [CHR 0x5C, CHR 0x22]
      else if c = CHR 0x5C then [CHR 0x5C, CHR 0x5C]
      else if (of_char c :: nat) < 0x20
        then [CHR 0x5C, CHR ''u'', CHR ''0'', CHR ''0'',
              hexDigit (of_char c div 16), hexDigit (of_char c mod 16)]
      else [c])"

definition JSON_stringify :: "string \<Rightarrow> string" where
  "JSON_stringify s = CHR 0x22 # concat (map quoteJSONChar s) @ [CHR 0x22]"

subsection \<open>path.join (POSIX)\<close>

text \<open>The segments of a path between its slashes.\<close>

fun splitSlash :: "string \<Rightarrow> string list" where
  "splitSlash [] = [[]]"
| "splitSlash (c # cs) =
     (case splitSlash cs of
        [] \<Rightarrow> (if c = CHR ''/'' then [[], []] else [[c]])
      | seg # segs \<Rightarrow> (if c = CHR ''/'' then [] # seg # segs else (c # seg) # segs))"

text \<open>
  \<^verbatim>\<open>normalizeString\<close> of Node: the kept segments are held as a stack, the last one first.
  An empty segment and \<^verbatim>\<open>.\<close> are dropped; \<^verbatim>\<open>..\<close> removes the segment before it,
  unless there is none or it is \<^verbatim>\<open>..\<close> itself, and then it is kept when the path is
  relative.
\<close>

fun normalizeSegments :: "bool \<Rightarrow> string list \<Rightarrow> string list \<Rightarrow> string list" where
  "normalizeSegments allowAboveRoot res [] = res"
| "normalizeSegments allowAboveRoot res (seg # segs) =
     (if seg = [] \<or> seg = ''.'' then normalizeSegments allowAboveRoot res segs
      else if seg = ''..'' then
        (case res of
           [] \<Rightarrow> normalizeSegments allowAboveRoot
                   (if allowAboveRoot then [''..''] else []) segs
         | r # rs \<Rightarrow>
             if r = ''..''
             then normalizeSegments allowAboveRoot
                    (if allowAboveRoot then ''..'' # r # rs else r # rs) segs
             else normalizeSegments allowAboveRoot rs segs)
      else normalizeSegments allowAboveRoot (seg # res) segs)"

definition normalizeString :: "string \<Rightarrow> bool \<Rightarrow> string" where
  "normalizeString p allowAboveRoot =
     join ''/'' (rev (normalizeSegments allowAboveRoot [] (splitSlash p)))"

definition path_normalize :: "string \<Rightarrow> string" where
  "path_normalize p =
     (if p = [] then ''.''
      else let isAbsolute = (hd p = CHR ''/'');
               trailingSeparator = (last p = CHR ''/'');
               q = normalizeString p (\<not> isAbsolute)
           in if q = [] then (if isAbsolute then ''/'' else if trailingSeparator then ''./'' else ''.'')
              else let q' = (if trailingSeparator then q @ ''/'' else q)
                   in if isAbsolute then ''/'' @ q' else q')"

text \<open>\<^verbatim>\<open>path.join(...args)\<close>: the non-empty arguments joined by a slash, then normalised.\<close>

definition path_join :: "string list \<Rightarrow> string" where
  "path_join args =
     (let parts = filter (\<lambda>a. a \<noteq> []) args
      in if parts = [] then ''.'' else path_normalize (join ''/'' parts))"

section \<open>The annotation emitter: buildNFTAnnotations.ts\<close>

text \<open>
  Modelled from the spec: the enum \<^verbatim>\<open>ClientEngineType\<close> of \<^verbatim>\<open>@prisma/internals\<close> is not
  among the sources. The spec speaks of two filename conventions (library-style and
  standalone-binary-style) "or no asset if the engine type needs none"; the third
  constructor stands for any engine type that is neither of the two, the case in which
  \<^verbatim>\<open>getQueryEngineFilename\<close> falls through to \<^verbatim>\<open>return undefined\<close>.
\<close>

datatype ClientEngineType = Library | Binary | NoAssetEngine

text \<open>
  The fields of \<^verbatim>\<open>TSClientOptions\<close> that \<^verbatim>\<open>buildNFTAnnotations\<close> destructures.
  \<^verbatim>\<open>platforms\<close> may be \<^verbatim>\<open>undefined\<close>. The type of the generator configuration is left
  open: the source only hands it to \<^verbatim>\<open>getClientEngineType\<close>.
\<close>

record 'g TSClientOptions =
  dataProxy :: bool
  platforms :: "string list option"
  esm :: bool
  generator :: 'g

text \<open>
  \<^verbatim>\<open>getClientEngineType\<close> and \<^verbatim>\<open>getNodeAPIName\<close> are imported from other packages and
  are parameters of the model. \<^verbatim>\<open>process.env\<close> is a map from variable names to values.
\<close>

type_synonym processEnv = "string \<rightharpoonup> string"

definition getQueryEngineFilename ::
  "(string \<Rightarrow> string \<Rightarrow> string) \<Rightarrow> ClientEngineType \<Rightarrow> string \<Rightarrow> string option" where
  "getQueryEngineFilename getNodeAPIName engineType platform =
     (if engineType = Library then Some (getNodeAPIName platform ''fs'')
      else if engineType = Binary then Some (''query-engine-'' @ platform)
      else None)"

definition buildNFTAnnotation :: "bool \<Rightarrow> string \<Rightarrow> string \<Rightarrow> string" where
  "buildNFTAnnotation esm' fileName relativeOutdir =
     (let relativeFilePath = path_join [relativeOutdir, fileName]
      in if esm' = True
         then [CHR 0x0A] @ ''new URL('' @ JSON_stringify (path_join [''.'', fileName])
              @ '', import.meta.url)''
         else [CHR 0x0A] @ ''path.join(__dirname, '' @ JSON_stringify fileName @ '');''
              @ [CHR 0x0A] @ ''path.join(process.cwd(), '' @ JSON_stringify relativeFilePath
              @ '')'')"

text \<open>
  Modelled from the spec: the helper \<^verbatim>\<open>map\<close> of \<^verbatim>\<open>helpers/blaze/map\<close> is not among the
  sources; the spec's "emit one annotation per resolved filename", for each platform, is
  the list map.
\<close>

definition buildNFTAnnotations ::
  "('g \<Rightarrow> ClientEngineType) \<Rightarrow> (string \<Rightarrow> string \<Rightarrow> string) \<Rightarrow> processEnv \<Rightarrow>
   'g TSClientOptions \<Rightarrow> string \<Rightarrow> string" where
  "buildNFTAnnotations getClientEngineType getNodeAPIName env opts relativeOutdir =
     (let engineType = getClientEngineType (generator opts)
      in if dataProxy opts = True then []
         else case platforms opts of
           None \<Rightarrow> []
         | Some given \<Rightarrow>
             let platforms' = (if truthy (env ''NETLIFY'') then [''rhel-openssl-1.0.x''] else given);
                 engineAnnotations =
                   join [CHR 0x0A]
                     (map (\<lambda>platform.
                        let engineFilename = getQueryEngineFilename getNodeAPIName engineType platform
                        in if truthy engineFilename
                           then buildNFTAnnotation (esm opts) (the engineFilename) relativeOutdir
                           else [])
                      platforms');
                 schemaAnnotations = buildNFTAnnotation (esm opts) ''schema.prisma'' relativeOutdir
             in engineAnnotations @ schemaAnnotations)"

section \<open>The placeholder module: default-index.js\<close>

text \<open>A thrown JavaScript value: the error's class and its message.\<close>

datatype error = Error string | TypeError string | ProcessError string

definition notInitializedMessage :: string where
  "notInitializedMessage =
     ''@prisma/client did not initialize yet. Please run '' @ [CHR 0x22] @ ''prisma generate''
     @ [CHR 0x22] @ '' and try to import it again.'' @ [CHR 0x0A]
     @ ''In case this error is unexpected for you, please report it in https://github.com/prisma/prisma/issues''"

text \<open>
  \<^verbatim>\<open>new PrismaClient(...args)\<close>: the constructor takes no parameter and its body is one
  \<^verbatim>\<open>throw\<close>; no instance is ever returned, so the type of instances is left open.
\<close>

definition PrismaClient :: "'a list \<Rightarrow> error + 'inst" where
  "PrismaClient args = Inl (Error notInitializedMessage)"

section \<open>The test-run orchestrator: run.ts\<close>

text \<open>
  The script is a sequence of awaited steps; each step may reject, and then \<^verbatim>\<open>main\<close>
  rejects with the same error, or the process exits at once (\<^verbatim>\<open>process.exit\<close>). A step is
  a function from the world to an outcome and the new world. The world holds the
  \<^verbatim>\<open>package.json\<close> files by their path, the copy saved under \<^verbatim>\<open>/tmp\<close> among them, and
  whatever else the external commands read and write. What \<^verbatim>\<open>console.log\<close> prints is not
  part of the model, and neither is the handler of \<^verbatim>\<open>SIGINT\<close>: the runs modelled are
  those that are not interrupted.
\<close>

datatype abort = Thrown error | Exited int

text \<open>
  A manifest as an object: its \<^verbatim>\<open>dependencies\<close> (absent in some manifests), an object from
  package names to version specifiers in the order of its keys, and all its other fields,
  which the script never reads.
\<close>

record PkgJson =
  dependencies :: "(string \<times> string) list option"
  otherFields :: "(string \<times> string) list"

record 'x world =
  files :: "string \<rightharpoonup> PkgJson"
  outside :: 'x

type_synonym ('x, 'a) step = "'x world \<Rightarrow> (abort + 'a) \<times> 'x world"

definition ret :: "'a \<Rightarrow> ('x, 'a) step" where
  "ret x w = (Inr x, w)"

definition throw :: "error \<Rightarrow> ('x, 'a) step" where
  "throw e w = (Inl (Thrown e), w)"

definition exit :: "int \<Rightarrow> ('x, 'a) step" where
  "exit n w = (Inl (Exited n), w)"

definition andThen :: "('x, 'a) step \<Rightarrow> ('a \<Rightarrow> ('x, 'b) step) \<Rightarrow> ('x, 'b) step" where
  "andThen m f w = (case m w of (Inl a, w') \<Rightarrow> (Inl a, w') | (Inr x, w') \<Rightarrow> f x w')"

text \<open>A \<^verbatim>\<open>for\<close> loop whose body is awaited: it stops at the first rejection.\<close>

fun forEach :: "('a \<Rightarrow> ('x, unit) step) \<Rightarrow> 'a list \<Rightarrow> ('x, unit) step" where
  "forEach f [] w = (Inr (), w)"
| "forEach f (x # xs) w =
     (case f x w of (Inl a, w') \<Rightarrow> (Inl a, w') | (Inr u, w') \<Rightarrow> forEach f xs w')"

text \<open>
  The parsed command line: a flag that was not given is \<^verbatim>\<open>undefined\<close>; \<^verbatim>\<open>args._\<close> holds the
  positional arguments.
\<close>

record Args =
  verbose :: "bool option"
  runInBand :: "bool option"
  skipBuild :: "bool option"
  skipPack :: "bool option"
  clean :: "bool option"
  positional :: "string list"

definition nullish :: "bool option \<Rightarrow> bool \<Rightarrow> bool option" where
  "nullish v d = (case v of None \<Rightarrow> Some d | Some b \<Rightarrow> Some b)"

definition withDefaults :: "Args \<Rightarrow> Args" where
  "withDefaults args =
     args\<lparr>runInBand := nullish (runInBand args) False,
          verbose := nullish (verbose args) False,
          skipBuild := nullish (skipBuild args) False,
          clean := nullish (clean args) False\<rparr>"

text \<open>
  The external commands run through \<^verbatim>\<open>$\<close> whose effect the script does not depend on,
  and the result of one container run (\<^verbatim>\<open>exitCode\<close> is the only field the script reads).
\<close>

datatype command =
  DockerVersion | ComposeDown | ComposeUp string | PnpmBuild | PnpmPack | PnpmStorePath
| DockerBuild | CatLogs "string option"

record ProcessOutput =
  exitCode :: int

record JobResult = ProcessOutput +
  name :: "string option"

text \<open>
  What the script takes from its surroundings: an external command changes the world and
  may reject; \<^verbatim>\<open>cwd\<close> is the working directory of the orchestrator's process;
  \<^verbatim>\<open>workspaceDirs\<close> are the package directories that \<^verbatim>\<open>pnpm -r exec\<close> visits;
  \<^verbatim>\<open>readdir\<close> and \<^verbatim>\<open>require\<close> are Node's; \<^verbatim>\<open>discoverTests\<close> is the list of names computed
  from the glob of \<^verbatim>\<open>_steps.ts\<close> files (lines 102-103); \<^verbatim>\<open>dockerRun\<close> is the output of the
  \<^verbatim>\<open>docker run\<close> process for a fixture name (each fixture runs in a container of its own).
\<close>

record 'x runtime =
  sh :: "command \<Rightarrow> 'x world \<Rightarrow> error option \<times> 'x world"
  cwd :: string
  workspaceDirs :: "string list"
  monorepoRoot :: string
  readdir :: "string \<Rightarrow> error + string list"
  require :: "string \<Rightarrow> error + PkgJson"
  discoverTests :: "error + string list"
  dockerRun :: "string \<Rightarrow> ProcessOutput"

definition run :: "'x runtime \<Rightarrow> command \<Rightarrow> ('x, unit) step" where
  "run rt c w = (case sh rt c w of (None, w') \<Rightarrow> (Inr (), w') | (Some e, w') \<Rightarrow> (Inl (Thrown e), w'))"

definition fromResult :: "error + 'a \<Rightarrow> ('x, 'a) step" where
  "fromResult r w = (case r of Inl e \<Rightarrow> (Inl (Thrown e), w) | Inr x \<Rightarrow> (Inr x, w))"

subsection \<open>Saving and restoring the manifests\<close>

text \<open>
  \<^verbatim>\<open>pnpm -r exec cp package.json "/tmp/$(basename $(pwd)).package.json"\<close> is handed to
  the shell as it stands (the template has no hole). The shell expands
  \<^verbatim>\<open>$(basename $(pwd))\<close> once, in the working directory of the orchestrator, before
  \<^verbatim>\<open>pnpm\<close> starts: the command that \<^verbatim>\<open>pnpm\<close> runs in every workspace package copies
  the package's manifest to one and the same file under \<^verbatim>\<open>/tmp\<close>, and
  \<^verbatim>\<open>restoreOriginal\<close> copies that one file over the manifest of every package. The
  packages are visited one after the other. \<^verbatim>\<open>cp\<close> fails when its source does not
  exist, and the command then rejects.
\<close>

definition manifestPath :: "string \<Rightarrow> string" where
  "manifestPath dir = dir @ ''/package.json''"

definition basename :: "string \<Rightarrow> string" where
  "basename dir = last (splitSlash dir)"

definition snapshotPath :: "'x runtime \<Rightarrow> string" where
  "snapshotPath rt = ''/tmp/'' @ basename (cwd rt) @ ''.package.json''"

definition cp :: "string \<Rightarrow> string \<Rightarrow> ('x, unit) step" where
  "cp src dst w =
     (case files w src of
        None \<Rightarrow> (Inl (Thrown (ProcessError ''cp: cannot stat'')), w)
      | Some content \<Rightarrow> (Inr (), w\<lparr>files := (files w)(dst \<mapsto> content)\<rparr>))"

definition saveOriginal :: "'x runtime \<Rightarrow> ('x, unit) step" where
  "saveOriginal rt = forEach (\<lambda>dir. cp (manifestPath dir) (snapshotPath rt)) (workspaceDirs rt)"

definition restoreOriginal :: "'x runtime \<Rightarrow> ('x, unit) step" where
  "restoreOriginal rt = forEach (\<lambda>dir. cp (snapshotPath rt) (manifestPath dir)) (workspaceDirs rt)"

subsection \<open>Rewriting the manifests (lines 65-79)\<close>

definition tarballPath :: "string \<Rightarrow> string" where
  "tarballPath key = ''/tmp/'' @ replace (replace key ''@'' []) ''/'' ''-'' @ ''-0.0.0.tgz''"

text \<open>
  The loop over \<^verbatim>\<open>Object.keys(dependencies)\<close>: an assignment to a key the object has
  keeps the key's place.
\<close>

definition rewriteDependencies :: "(string \<times> string) list \<Rightarrow> (string \<times> string) list" where
  "rewriteDependencies deps =
     fold (\<lambda>key d. if startsWith key ''@prisma/'' then AList.update key (tarballPath key) d else d)
       (map fst deps) deps"

text \<open>\<^verbatim>\<open>Object.keys(undefined)\<close> throws a \<^verbatim>\<open>TypeError\<close>.\<close>

definition rewritePkgJson :: "PkgJson \<Rightarrow> error + PkgJson" where
  "rewritePkgJson pkg =
     (case dependencies pkg of
        None \<Rightarrow> Inl (TypeError ''Cannot convert undefined or null to object'')
      | Some deps \<Rightarrow> Inr (pkg\<lparr>dependencies := Some (rewriteDependencies deps)\<rparr>))"

definition writeFile :: "string \<Rightarrow> PkgJson \<Rightarrow> ('x, unit) step" where
  "writeFile path content w = (Inr (), w\<lparr>files := (files w)(path \<mapsto> content)\<rparr>)"

text \<open>
  \<^verbatim>\<open>allPackageFolders.map((p) => require(p))\<close>: \<^verbatim>\<open>require\<close> is handed the package
  folders, and the first failing \<^verbatim>\<open>require\<close> throws.
\<close>

fun requireAll :: "(string \<Rightarrow> error + PkgJson) \<Rightarrow> string list \<Rightarrow> error + PkgJson list" where
  "requireAll req [] = Inr []"
| "requireAll req (p # ps) =
     (case req p of
        Inl e \<Rightarrow> Inl e
      | Inr pkg \<Rightarrow> (case requireAll req ps of Inl e \<Rightarrow> Inl e | Inr pkgs \<Rightarrow> Inr (pkg # pkgs)))"

definition allPackageFolders :: "'x runtime \<Rightarrow> string list \<Rightarrow> string list" where
  "allPackageFolders rt allPackageFolderNames =
     map (\<lambda>p. path_join [monorepoRoot rt, ''packages'', p]) allPackageFolderNames"

definition allPkgJsonPaths :: "'x runtime \<Rightarrow> string list \<Rightarrow> string list" where
  "allPkgJsonPaths rt allPackageFolderNames =
     map (\<lambda>p. path_join [p, ''package.json'']) (allPackageFolders rt allPackageFolderNames)"

text \<open>
  The loop of lines 71-79 pairs \<^verbatim>\<open>allPkgJson[i]\<close> with \<^verbatim>\<open>allPkgJsonPaths[i]\<close>; both
  arrays are maps of \<^verbatim>\<open>allPackageFolders\<close> and have its length.
\<close>

definition rewriteLoop :: "PkgJson list \<Rightarrow> string list \<Rightarrow> ('x, unit) step" where
  "rewriteLoop allPkgJson paths =
     forEach (\<lambda>(pkg, path). andThen (fromResult (rewritePkgJson pkg)) (\<lambda>pkg'. writeFile path pkg'))
       (zip allPkgJson paths)"

definition rewriteManifests :: "'x runtime \<Rightarrow> ('x, unit) step" where
  "rewriteManifests rt =
     andThen (fromResult (readdir rt (path_join [monorepoRoot rt, ''packages'']))) (\<lambda>names.
     andThen (fromResult (requireAll (require rt) (allPackageFolders rt names))) (\<lambda>allPkgJson.
       rewriteLoop allPkgJson (allPkgJsonPaths rt names)))"

subsection \<open>Building and packing (lines 81-98)\<close>

definition tryBlock :: "Args \<Rightarrow> 'x runtime \<Rightarrow> ('x, unit) step" where
  "tryBlock args rt =
     andThen (if skipBuild args \<noteq> Some True then run rt PnpmBuild else ret ()) (\<lambda>u.
       if skipPack args \<noteq> Some True then run rt PnpmPack else ret ())"

text \<open>
  \<^verbatim>\<open>try { ... } catch (e) { ...; throw e } finally { await restoreOriginal() }\<close>: the
  \<^verbatim>\<open>catch\<close> block prints and throws the same error again; the \<^verbatim>\<open>finally\<close> block runs on
  both paths, and when it rejects its own error is the outcome.
\<close>

definition packTarballs :: "Args \<Rightarrow> 'x runtime \<Rightarrow> ('x, unit) step" where
  "packTarballs args rt w =
     (case tryBlock args rt w of
        (r, w1) \<Rightarrow>
          (case restoreOriginal rt w1 of
             (Inl a, w2) \<Rightarrow> (Inl a, w2)
           | (Inr u, w2) \<Rightarrow> (r, w2)))"

subsection \<open>Running the fixtures (lines 100-160)\<close>

definition selectTests :: "string list \<Rightarrow> string list \<Rightarrow> string list" where
  "selectTests filters e2eTestNames =
     (if length filters > 0
      then filter (\<lambda>p. list_ex (\<lambda>a. includes_str p a) filters) e2eTestNames
      else e2eTestNames)"

text \<open>\<^verbatim>\<open>xs[i]\<close> is \<^verbatim>\<open>undefined\<close> past the end of the array.\<close>

definition at :: "'a list \<Rightarrow> nat \<Rightarrow> 'a option" where
  "at xs i = (if i < length xs then Some (xs ! i) else None)"

definition assignName :: "ProcessOutput \<Rightarrow> string option \<Rightarrow> JobResult" where
  "assignName result n = \<lparr>exitCode = exitCode result, name = n\<rparr>"

text \<open>
  A command run through \<^verbatim>\<open>$\<close> of zx rejects when its exit code is not 0, unless it was
  made \<^verbatim>\<open>.nothrow()\<close>: it then resolves with its output whatever the exit code.
\<close>

definition zx :: "bool \<Rightarrow> ProcessOutput \<Rightarrow> ('x, ProcessOutput) step" where
  "zx nothrow output =
     (if \<not> nothrow \<and> exitCode output \<noteq> 0
      then throw (ProcessError ''exit code'')
      else ret output)"

definition dockerJobs :: "'x runtime \<Rightarrow> string list \<Rightarrow> (unit \<Rightarrow> ('x, ProcessOutput) step) list" where
  "dockerJobs rt e2eTestNames = map (\<lambda>path. (\<lambda>u. zx True (dockerRun rt path))) e2eTestNames"

text \<open>
  The loop of \<^verbatim>\<open>--runInBand\<close>: one job after the other is awaited and its result
  pushed; a job that rejected would end the loop.
\<close>

fun inBandLoop ::
  "(nat \<times> (unit \<Rightarrow> ('x, ProcessOutput) step)) list \<Rightarrow> string list \<Rightarrow> JobResult list \<Rightarrow>
   ('x, JobResult list) step" where
  "inBandLoop [] e2eTestNames jobResults = ret jobResults"
| "inBandLoop ((i, job) # entries) e2eTestNames jobResults =
     andThen (job ()) (\<lambda>result.
       inBandLoop entries e2eTestNames (jobResults @ [assignName result (at e2eTestNames i)]))"

text \<open>
  \<^verbatim>\<open>Promise.all\<close> over the started jobs resolves with every job's result, at the job's
  index, when no job rejects, and rejects when one does.
\<close>

fun promiseAll :: "('x, 'a) step list \<Rightarrow> ('x, 'a list) step" where
  "promiseAll [] = ret []"
| "promiseAll (p # ps) = andThen p (\<lambda>x. andThen (promiseAll ps) (\<lambda>xs. ret (x # xs)))"

definition inParallel ::
  "(unit \<Rightarrow> ('x, ProcessOutput) step) list \<Rightarrow> string list \<Rightarrow> ('x, JobResult list) step" where
  "inParallel jobs e2eTestNames =
     andThen (promiseAll (map (\<lambda>job. job ()) jobs)) (\<lambda>results.
       ret (map (\<lambda>(result, i). assignName result (at e2eTestNames i))
              (zip results [0 ..< length results])))"

definition runJobs :: "Args \<Rightarrow> 'x runtime \<Rightarrow> string list \<Rightarrow> ('x, JobResult list) step" where
  "runJobs args rt e2eTestNames =
     (let jobs = dockerJobs rt e2eTestNames
      in if runInBand args = Some True
         then inBandLoop (zip [0 ..< length jobs] jobs) e2eTestNames []
         else inParallel jobs e2eTestNames)"

definition report :: "Args \<Rightarrow> 'x runtime \<Rightarrow> JobResult list \<Rightarrow> ('x, unit) step" where
  "report args rt jobResults =
     (let failedJobResults = filter (\<lambda>r. exitCode r \<noteq> 0) jobResults;
          passedJobResults = filter (\<lambda>r. exitCode r = 0) jobResults
      in andThen
           (if verbose args = Some True
            then forEach (\<lambda>result. run rt (CatLogs (name result))) failedJobResults
            else ret ())
           (\<lambda>u. if length failedJobResults > 0
                then throw (Error ''Some tests exited with a non-zero exit code'')
                else ret ()))"

definition executeFixtures :: "Args \<Rightarrow> 'x runtime \<Rightarrow> string list \<Rightarrow> ('x, unit) step" where
  "executeFixtures args rt e2eTestNames =
     andThen (runJobs args rt e2eTestNames) (\<lambda>jobResults. report args rt jobResults)"

definition runTests :: "Args \<Rightarrow> 'x runtime \<Rightarrow> ('x, unit) step" where
  "runTests args rt =
     andThen (fromResult (discoverTests rt)) (\<lambda>discovered.
     andThen (run rt PnpmStorePath) (\<lambda>u.
     andThen (run rt DockerBuild) (\<lambda>u.
       executeFixtures args rt (selectTests (positional args) discovered))))"

subsection \<open>main and the exit code of the process\<close>

definition cleanUp :: "Args \<Rightarrow> 'x runtime \<Rightarrow> ('x, unit) step" where
  "cleanUp args rt =
     andThen (run rt ComposeDown) (\<lambda>u.
       if clean args = Some True then run rt (ComposeUp ''clean'')
       else run rt (ComposeUp ''pre-clean''))"

text \<open>\<^verbatim>\<open>arg\<close> returns the parsed command line or an \<^verbatim>\<open>Error\<close> (here: its message).\<close>

definition main :: "string + Args \<Rightarrow> 'x runtime \<Rightarrow> ('x, unit) step" where
  "main parsed rt =
     (case parsed of
        Inl message \<Rightarrow> exit 1
      | Inr given \<Rightarrow>
          let args = withDefaults given
          in andThen (if verbose args = Some True then run rt DockerVersion else ret ()) (\<lambda>u.
             andThen (cleanUp args rt) (\<lambda>u.
             andThen (saveOriginal rt) (\<lambda>u.
             andThen (rewriteManifests rt) (\<lambda>u.
             andThen (packTarballs args rt) (\<lambda>u.
               runTests args rt))))))"


section \<open>Notions used to state the properties\<close>

text \<open>
  A name that \<^verbatim>\<open>JSON.stringify\<close> and \<^verbatim>\<open>path.join\<close> leave as it is: no slash, no quote,
  no backslash and no control character. The platform identifiers and the engine file
  names built from them are of this kind.
\<close>

definition plainName :: "string \<Rightarrow> bool" where
  "plainName f =
     (\<forall>c\<in>set f. c \<noteq> CHR ''/'' \<and> c \<noteq> CHR 0x22 \<and> c \<noteq> CHR 0x5C \<and> 0x20 \<le> (of_char c :: nat))"

text \<open>The platform list the annotations are built from (lines 32-34).\<close>

definition effectivePlatforms :: "processEnv \<Rightarrow> string list \<Rightarrow> string list" where
  "effectivePlatforms env given =
     (if truthy (env ''NETLIFY'') then [''rhel-openssl-1.0.x''] else given)"

text \<open>
  The asset file names the emitter resolves, one place per platform (\<open>None\<close> where the
  engine type has no asset), and the spec's emitter over them: "emit one annotation per
  resolved filename, plus one fixed annotation for a configuration-schema asset", in the
  syntax the flag chooses.
\<close>

definition engineFilenames ::
  "('g \<Rightarrow> ClientEngineType) \<Rightarrow> (string \<Rightarrow> string \<Rightarrow> string) \<Rightarrow> processEnv \<Rightarrow>
   'g TSClientOptions \<Rightarrow> string option list" where
  "engineFilenames getClientEngineType getNodeAPIName env opts =
     (case platforms opts of
        None \<Rightarrow> []
      | Some given \<Rightarrow>
          map (\<lambda>platform.
                 let f = getQueryEngineFilename getNodeAPIName
                           (getClientEngineType (generator opts)) platform
                 in if truthy f then f else None)
            (effectivePlatforms env given))"

definition emitAnnotations :: "bool \<Rightarrow> string \<Rightarrow> string option list \<Rightarrow> string" where
  "emitAnnotations flag relativeOutdir names =
     join [CHR 0x0A]
       (map (\<lambda>n. case n of None \<Rightarrow> [] | Some f \<Rightarrow> buildNFTAnnotation flag f relativeOutdir) names)
     @ buildNFTAnnotation flag ''schema.prisma'' relativeOutdir"

text \<open>
  The file names an annotation text refers to. The bundler that reads the annotations
  finds the paths in the string literals of the text; \<^verbatim>\<open>stringLiterals\<close> scans a text for
  its double-quoted literals (a backslash takes the next character with it, as in the
  escapes that \<^verbatim>\<open>JSON.stringify\<close> writes), and the file name of a literal is its last
  path segment. A proper name is a plain name that is a path segment of its own: not
  empty, not \<^verbatim>\<open>.\<close> and not \<^verbatim>\<open>..\<close>.
\<close>

definition properName :: "string \<Rightarrow> bool" where
  "properName f = (plainName f \<and> f \<noteq> [] \<and> f \<noteq> ''.'' \<and> f \<noteq> ''..'')"

fun stringLiterals :: "string option \<Rightarrow> string \<Rightarrow> string list" where
  "stringLiterals None [] = []"
| "stringLiterals None (c # cs) =
     (if c = CHR 0x22 then stringLiterals (Some []) cs else stringLiterals None cs)"
| "stringLiterals (Some lit) [] = []"
| "stringLiterals (Some lit) (c # cs) =
     (if c = CHR 0x22 then lit # stringLiterals None cs
      else if c = CHR 0x5C
        then (case cs of [] \<Rightarrow> [] | d # ds \<Rightarrow> stringLiterals (Some (lit @ [c, d])) ds)
      else stringLiterals (Some (lit @ [c])) cs)"

definition referencedFiles :: "string \<Rightarrow> string list" where
  "referencedFiles text = map basename (stringLiterals None text)"

text \<open>
  What the rewrite of a manifest may change: the entries of \<^verbatim>\<open>dependencies\<close> whose key
  starts with \<^verbatim>\<open>@prisma/\<close> have the tarball path as their value; the keys, their order,
  every other entry and every other field are the same.
\<close>

definition onlyPrismaDepsChanged :: "PkgJson \<Rightarrow> PkgJson \<Rightarrow> bool" where
  "onlyPrismaDepsChanged pkg pkg' =
     (otherFields pkg' = otherFields pkg \<and>
      (\<exists>deps deps'. dependencies pkg = Some deps \<and> dependencies pkg' = Some deps' \<and>
         map fst deps' = map fst deps \<and>
         (\<forall>key. map_of deps' key =
            (if key \<in> fst ` set deps \<and> startsWith key ''@prisma/''
             then Some (tarballPath key) else map_of deps key))))"

text \<open>
  The steps of \<^verbatim>\<open>main\<close> before the fixtures are executed (lines 33-119); they resolve
  with the names of the selected fixtures.
\<close>

definition beforeFixtures :: "Args \<Rightarrow> 'x runtime \<Rightarrow> ('x, string list) step" where
  "beforeFixtures given rt =
     (let args = withDefaults given
      in andThen (if verbose args = Some True then run rt DockerVersion else ret ()) (\<lambda>u.
         andThen (cleanUp args rt) (\<lambda>u.
         andThen (saveOriginal rt) (\<lambda>u.
         andThen (rewriteManifests rt) (\<lambda>u.
         andThen (packTarballs args rt) (\<lambda>u.
         andThen (fromResult (discoverTests rt)) (\<lambda>discovered.
         andThen (run rt PnpmStorePath) (\<lambda>u.
         andThen (run rt DockerBuild) (\<lambda>u.
           ret (selectTests (positional args) discovered))))))))))"

text \<open>Concrete inputs for the examples.\<close>

definition sample_getNodeAPIName :: "string \<Rightarrow> string \<Rightarrow> string" where
  "sample_getNodeAPIName platform t = ''libquery_engine-'' @ platform @ ''.so.node''"

definition sample_options :: "bool \<Rightarrow> ClientEngineType \<Rightarrow> ClientEngineType TSClientOptions" where
  "sample_options flag engineType =
     \<lparr>dataProxy = False, platforms = Some [''darwin'', ''debian-openssl-1.1.x''],
      esm = flag, generator = engineType\<rparr>"

definition netlify_env :: processEnv where
  "netlify_env = [''NETLIFY'' \<mapsto> ''true'']"

definition sample_cli :: PkgJson where
  "sample_cli =
     \<lparr>dependencies = Some [(''@prisma/engines'', ''workspace:*''), (''chalk'', ''4.1.2'')],
      otherFields = [(''name'', ''prisma''), (''version'', ''0.0.0'')]\<rparr>"

definition sample_client :: PkgJson where
  "sample_client =
     \<lparr>dependencies = Some [(''@prisma/engines-version'', ''5.7.0'')],
      otherFields = [(''name'', ''@prisma/client'')]\<rparr>"

definition sample_world :: "unit world" where
  "sample_world =
     \<lparr>files = [''/repo/packages/cli/package.json'' \<mapsto> sample_cli,
               ''/repo/packages/client/package.json'' \<mapsto> sample_client],
      outside = ()\<rparr>"

text \<open>
  A runtime in which every external command succeeds, the orchestrator is started in
  \<^verbatim>\<open>packages/client\<close>, \<^verbatim>\<open>require\<close> gives for each package folder an object with the
  content of the package's manifest, and the fixture \<^verbatim>\<open>issues/123\<close> exits with 1; the same
  runtime with one command that fails; and the same runtime in which the main module of
  \<^verbatim>\<open>packages/cli\<close>, which is what \<^verbatim>\<open>require\<close> loads for the folder, exports an object
  other than the manifest.
\<close>

definition sample_runtime :: "unit runtime" where
  "sample_runtime =
     \<lparr>sh = (\<lambda>c w. (None, w)),
      cwd = ''/repo/packages/client'',
      workspaceDirs = [''/repo/packages/cli'', ''/repo/packages/client''],
      monorepoRoot = ''/repo'',
      readdir = (\<lambda>p. Inr [''cli'', ''client'']),
      require = (\<lambda>p. if p = ''/repo/packages/cli'' then Inr sample_cli
                      else if p = ''/repo/packages/client'' then Inr sample_client
                      else Inl (Error ''Cannot find module'')),
      discoverTests = Inr [''esm-cjs'', ''prisma-client-imports'', ''issues/123''],
      dockerRun = (\<lambda>n. \<lparr>exitCode = (if n = ''issues/123'' then 1 else 0)\<rparr>)\<rparr>"

definition failing :: "command \<Rightarrow> unit runtime" where
  "failing cmd =
     sample_runtime\<lparr>sh := (\<lambda>c w. (if c = cmd then Some (ProcessError ''command failed'') else None, w))\<rparr>"

definition sample_cli_module :: PkgJson where
  "sample_cli_module =
     \<lparr>dependencies = Some [(''@prisma/engines'', ''workspace:*'')],
      otherFields = [(''version'', ''5.7.0'')]\<rparr>"

definition module_runtime :: "unit runtime" where
  "module_runtime =
     sample_runtime\<lparr>require := (\<lambda>p. if p = ''/repo/packages/cli'' then Inr sample_cli_module
                                     else if p = ''/repo/packages/client'' then Inr sample_client
                                     else Inl (Error ''Cannot find module''))\<rparr>"

definition sample_args :: Args where
  "sample_args =
     \<lparr>verbose = None, runInBand = Some True, skipBuild = None, skipPack = None, clean = None,
      positional = []\<rparr>"

section \<open>Properties of the annotation emitter\<close>

subsection \<open>Strings\<close>

lemma startsWith_prefix: "startsWith s p = prefix p s"
  by (induction s p rule: startsWith.induct) auto

lemma includes_str_sublist: "includes_str s a = sublist a s"
  by (induction s) (auto simp: startsWith_prefix sublist_Cons_right)

lemma includes_str_iff: "includes_str s a = (\<exists>u v. s = u @ a @ v)"
  by (simp add: includes_str_sublist sublist_def)

lemma quoteJSONChar_plain:
  "c \<noteq> CHR 0x22 \<Longrightarrow> c \<noteq> CHR 0x5C \<Longrightarrow> 0x20 \<le> (of_char c :: nat) \<Longrightarrow> quoteJSONChar c = [c]"
  unfolding quoteJSONChar_def by auto

lemma concat_quote_plain: "plainName f \<Longrightarrow> concat (map quoteJSONChar f) = f"
  by (induction f) (auto simp: plainName_def quoteJSONChar_plain)

lemma JSON_stringify_plain: "plainName f \<Longrightarrow> JSON_stringify f = CHR 0x22 # f @ [CHR 0x22]"
  by (simp add: JSON_stringify_def concat_quote_plain)

lemma splitSlash_noslash: "CHR ''/'' \<notin> set f \<Longrightarrow> splitSlash f = [f]"
  by (induction f) auto

lemma splitSlash_dot: "CHR ''/'' \<notin> set f \<Longrightarrow> splitSlash (CHR ''.'' # CHR ''/'' # f) = [''.'', f]"
  by (simp add: splitSlash_noslash)

lemma path_join_dot:
  assumes "CHR ''/'' \<notin> set f" "f \<noteq> []"
  shows "path_join [''.'', f] = f"
proof -
  have l: "last f \<noteq> CHR ''/''" using assms by (metis last_in_set)
  have n: "normalizeSegments True [] [''.'', f] = (if f = ''.'' then [] else [f])"
    using assms by simp
  have q: "normalizeString (CHR ''.'' # CHR ''/'' # f) True = (if f = ''.'' then [] else f)"
    unfolding normalizeString_def splitSlash_dot [OF assms(1)] n by simp
  have "path_normalize (CHR ''.'' # CHR ''/'' # f) = f"
    unfolding path_normalize_def using assms l by (simp add: q Let_def)
  then show ?thesis using assms by (simp add: path_join_def)
qed

lemma includes_buildNFTAnnotation:
  assumes "plainName f"
  shows "includes_str (buildNFTAnnotation b f outdir) f"
proof (cases "f = []")
  case True
  then show ?thesis by (simp add: includes_str_sublist)
next
  case False
  have ns: "CHR ''/'' \<notin> set f" using assms by (auto simp: plainName_def)
  show ?thesis
  proof (cases b)
    case True
    have "buildNFTAnnotation b f outdir =
        ([CHR 0x0A] @ ''new URL('' @ [CHR 0x22]) @ f @ ([CHR 0x22] @ '', import.meta.url)'')"
      using True by (simp add: buildNFTAnnotation_def path_join_dot [OF ns False] JSON_stringify_plain [OF assms])
    then show ?thesis unfolding includes_str_iff by blast
  next
    case False
    have "buildNFTAnnotation b f outdir =
        ([CHR 0x0A] @ ''path.join(__dirname, '' @ [CHR 0x22]) @ f @ ([CHR 0x22] @ '');''
              @ [CHR 0x0A] @ ''path.join(process.cwd(), '' @ JSON_stringify (path_join [outdir, f])
              @ '')'')"
      using False by (simp add: buildNFTAnnotation_def JSON_stringify_plain [OF assms])
    then show ?thesis unfolding includes_str_iff by blast
  qed
qed

lemma includes_join:
  "x \<in> set xs \<Longrightarrow> includes_str x a \<Longrightarrow> includes_str (join sep xs @ rest) a"
proof (induction sep xs rule: join.induct)
  case (1 sep)
  then show ?case by simp
next
  case (2 sep x')
  then obtain u v where "x' = u @ a @ v" by (auto simp: includes_str_iff)
  then have "join sep [x'] @ rest = u @ a @ (v @ rest)" by simp
  then show ?case unfolding includes_str_iff by blast
next
  case (3 sep x' y ys)
  show ?case
  proof (cases "x = x'")
    case True
    then obtain u v where "x' = u @ a @ v" using 3 by (auto simp: includes_str_iff)
    then have "join sep (x' # y # ys) @ rest = u @ a @ (v @ sep @ join sep (y # ys) @ rest)" by simp
    then show ?thesis unfolding includes_str_iff by blast
  next
    case False
    then have "x \<in> set (y # ys)" using 3 by auto
    then obtain u v where "join sep (y # ys) @ rest = u @ a @ v"
      using 3 by (auto simp: includes_str_iff)
    then have "join sep (x' # y # ys) @ rest = (x' @ sep @ u) @ a @ v" by simp
    then show ?thesis unfolding includes_str_iff by blast
  qed
qed

lemma buildNFTAnnotation_nonempty: "buildNFTAnnotation b f outdir \<noteq> []"
  by (simp add: buildNFTAnnotation_def)


subsection \<open>The two cases of buildNFTAnnotations\<close>

lemma buildNFTAnnotations_off:
  "dataProxy opts \<or> platforms opts = None \<Longrightarrow> buildNFTAnnotations gce gnn env opts outdir = []"
  by (auto simp: buildNFTAnnotations_def)

lemma buildNFTAnnotations_on:
  "\<not> dataProxy opts \<Longrightarrow> platforms opts = Some ps \<Longrightarrow>
   buildNFTAnnotations gce gnn env opts outdir =
     join [CHR 0x0A]
       (map (\<lambda>platform.
          if truthy (getQueryEngineFilename gnn (gce (generator opts)) platform)
          then buildNFTAnnotation (esm opts)
                 (the (getQueryEngineFilename gnn (gce (generator opts)) platform)) outdir
          else [])
        (effectivePlatforms env ps))
     @ buildNFTAnnotation (esm opts) ''schema.prisma'' outdir"
  by (simp add: buildNFTAnnotations_def effectivePlatforms_def Let_def)

lemma includes_engine:
  assumes "\<not> dataProxy opts" "platforms opts = Some ps" "p \<in> set (effectivePlatforms env ps)"
    and "getQueryEngineFilename gnn (gce (generator opts)) p = Some f" "plainName f"
  shows "includes_str (buildNFTAnnotations gce gnn env opts outdir) f"
proof (cases "f = []")
  case True
  then show ?thesis by (simp add: includes_str_sublist)
next
  case False
  let ?g = "\<lambda>platform.
          if truthy (getQueryEngineFilename gnn (gce (generator opts)) platform)
          then buildNFTAnnotation (esm opts)
                 (the (getQueryEngineFilename gnn (gce (generator opts)) platform)) outdir
          else []"
  have "?g p = buildNFTAnnotation (esm opts) f outdir"
    using assms(4) False by (simp add: truthy_def)
  then have "includes_str (?g p) f"
    using includes_buildNFTAnnotation [OF assms(5)] by simp
  moreover have "?g p \<in> set (map ?g (effectivePlatforms env ps))"
    unfolding set_map using assms(3) by (rule imageI)
  ultimately show ?thesis
    unfolding buildNFTAnnotations_on [OF assms(1,2)] by (rule includes_join [rotated])
qed

text \<open>
  C1 (as amended). \<^verbatim>\<open>buildNFTAnnotations\<close> returns the empty string when \<^verbatim>\<open>dataProxy\<close> is
  true or \<^verbatim>\<open>platforms\<close> is undefined. Otherwise it returns a non-empty string which, for
  the engine types Library and Binary, contains the engine file name of every platform of
  the list the annotations are built from: the given list when the environment variable
  \<^verbatim>\<open>NETLIFY\<close> is unset or empty, the single platform \<^verbatim>\<open>rhel-openssl-1.0.x\<close> when it is set.
  The file names are plain names.
\<close>

theorem buildNFTAnnotations_filenames:
  assumes "out = buildNFTAnnotations gce gnn env opts outdir"
  shows "(dataProxy opts \<longrightarrow> out = [])
       \<and> (platforms opts = None \<longrightarrow> out = [])
       \<and> (\<forall>ps. \<not> dataProxy opts \<and> platforms opts = Some ps \<longrightarrow>
            out \<noteq> [] \<and>
            (\<forall>p \<in> set (if truthy (env ''NETLIFY'') then [''rhel-openssl-1.0.x''] else ps).
               (gce (generator opts) = Library \<and> plainName (gnn p ''fs'')
                  \<longrightarrow> includes_str out (gnn p ''fs'')) \<and>
               (gce (generator opts) = Binary \<and> plainName (''query-engine-'' @ p)
                  \<longrightarrow> includes_str out (''query-engine-'' @ p))))"
proof (intro conjI allI impI ballI)
  show "out = []" if "dataProxy opts" using that assms by (simp add: buildNFTAnnotations_off)
  show "out = []" if "platforms opts = None" using that assms by (simp add: buildNFTAnnotations_off)
next
  fix ps assume a: "\<not> dataProxy opts \<and> platforms opts = Some ps"
  then show "out \<noteq> []"
    using assms by (simp add: buildNFTAnnotations_on buildNFTAnnotation_nonempty)
  fix p assume p: "p \<in> set (if truthy (env ''NETLIFY'') then [''rhel-openssl-1.0.x''] else ps)"
  then have p': "p \<in> set (effectivePlatforms env ps)" by (simp add: effectivePlatforms_def)
  show "includes_str out (gnn p ''fs'')"
    if "gce (generator opts) = Library \<and> plainName (gnn p ''fs'')"
    unfolding assms using a p' that
    by (intro includes_engine [where ps = ps and p = p]) (simp_all add: getQueryEngineFilename_def)
  show "includes_str out (''query-engine-'' @ p)"
    if "gce (generator opts) = Binary \<and> plainName (''query-engine-'' @ p)"
    unfolding assms using a p' that
    by (intro includes_engine [where ps = ps and p = p]) (simp_all add: getQueryEngineFilename_def)
qed

lemma plainName_code: "plainName f = list_all (\<lambda>c. c \<noteq> CHR ''/'' \<and> c \<noteq> CHR 0x22 \<and> c \<noteq> CHR 0x5C \<and> 0x20 \<le> (of_char c :: nat)) f"
  by (simp add: plainName_def list_all_iff)

text \<open>
  The theorem at concrete inputs: \<^verbatim>\<open>dataProxy\<close> on, \<^verbatim>\<open>platforms\<close> undefined, the Binary
  and the Library engine, and a set \<^verbatim>\<open>NETLIFY\<close>.
\<close>

theorem buildNFTAnnotations_filenames_witness:
  "buildNFTAnnotations id sample_getNodeAPIName Map.empty
       ((sample_options False Binary)\<lparr>dataProxy := True\<rparr>) ''out'' = []
   \<and> buildNFTAnnotations id sample_getNodeAPIName Map.empty
       ((sample_options False Binary)\<lparr>platforms := None\<rparr>) ''out'' = []
   \<and> buildNFTAnnotations id sample_getNodeAPIName Map.empty (sample_options False Binary) ''out'' \<noteq> []
   \<and> includes_str
        (buildNFTAnnotations id sample_getNodeAPIName Map.empty (sample_options False Binary) ''out'')
        ''query-engine-debian-openssl-1.1.x''
   \<and> includes_str
        (buildNFTAnnotations id sample_getNodeAPIName Map.empty (sample_options True Library) ''out'')
        ''libquery_engine-darwin.so.node''
   \<and> includes_str
        (buildNFTAnnotations id sample_getNodeAPIName netlify_env (sample_options True Binary) ''out'')
        ''query-engine-rhel-openssl-1.0.x''"
proof -
  have p: "plainName ''query-engine-debian-openssl-1.1.x''"
    "plainName (sample_getNodeAPIName ''darwin'' ''fs'')"
    "plainName ''query-engine-rhel-openssl-1.0.x''"
    by (simp_all add: plainName_code sample_getNodeAPIName_def)
  have e: "\<not> truthy (Map.empty ''NETLIFY'')" "truthy (netlify_env ''NETLIFY'')"
    by (simp_all add: truthy_def netlify_env_def)
  note t = buildNFTAnnotations_filenames [OF refl, of _ id sample_getNodeAPIName]
  show ?thesis
    using t [of "(sample_options False Binary)\<lparr>dataProxy := True\<rparr>" Map.empty "''out''"]
      t [of "(sample_options False Binary)\<lparr>platforms := None\<rparr>" Map.empty "''out''"]
      t [of "sample_options False Binary" Map.empty "''out''"]
      t [of "sample_options True Library" Map.empty "''out''"]
      t [of "sample_options True Binary" netlify_env "''out''"]
      p e
    by (simp add: sample_options_def sample_getNodeAPIName_def)
qed

text \<open>
  C1 as the spec states it fails when \<^verbatim>\<open>NETLIFY\<close> is set: the platform list is replaced,
  and the file name of a given platform is not in the output.
\<close>

theorem buildNFTAnnotations_netlify_counterexample:
  "\<not> includes_str
       (buildNFTAnnotations id sample_getNodeAPIName netlify_env (sample_options False Binary) ''out'')
       ''query-engine-darwin''"
  by code_simp

text \<open>
  C2 (as amended). The returned text is a function of \<^verbatim>\<open>dataProxy\<close>, the platform list,
  the \<^verbatim>\<open>esm\<close> flag, the engine type of the generator, the output directory, and of
  whether the environment variable \<^verbatim>\<open>NETLIFY\<close> is set: two calls that agree on these
  return the same text, whatever else the environments and the generator configurations
  hold. When \<^verbatim>\<open>dataProxy\<close> is true or \<^verbatim>\<open>platforms\<close> is undefined the environment plays
  no part at all.
\<close>

theorem buildNFTAnnotations_inputs:
  "getClientEngineType (generator opts1) = getClientEngineType (generator opts2)
     \<and> dataProxy opts1 = dataProxy opts2 \<and> platforms opts1 = platforms opts2
     \<and> esm opts1 = esm opts2
     \<and> (truthy (env1 ''NETLIFY'') = truthy (env2 ''NETLIFY'')
          \<or> dataProxy opts1 \<or> platforms opts1 = None)
   \<longrightarrow> buildNFTAnnotations getClientEngineType getNodeAPIName env1 opts1 relativeOutdir
       = buildNFTAnnotations getClientEngineType getNodeAPIName env2 opts2 relativeOutdir"
proof (intro impI, elim conjE)
  assume g: "getClientEngineType (generator opts1) = getClientEngineType (generator opts2)"
    and d: "dataProxy opts1 = dataProxy opts2" and p: "platforms opts1 = platforms opts2"
    and e: "esm opts1 = esm opts2"
    and n: "truthy (env1 ''NETLIFY'') = truthy (env2 ''NETLIFY'')
          \<or> dataProxy opts1 \<or> platforms opts1 = None"
  show "buildNFTAnnotations getClientEngineType getNodeAPIName env1 opts1 relativeOutdir
       = buildNFTAnnotations getClientEngineType getNodeAPIName env2 opts2 relativeOutdir"
  proof (cases "dataProxy opts1 \<or> platforms opts1 = None")
    case True
    then have "dataProxy opts2 \<or> platforms opts2 = None" using d p by simp
    then show ?thesis using True by (simp only: buildNFTAnnotations_off)
  next
    case False
    then obtain ps where ps: "platforms opts1 = Some ps" by auto
    have t: "effectivePlatforms env1 ps = effectivePlatforms env2 ps"
      using n False by (simp add: effectivePlatforms_def)
    have c: "\<not> dataProxy opts1" "\<not> dataProxy opts2" "platforms opts2 = Some ps"
      using False d p ps by simp_all
    show ?thesis
      unfolding buildNFTAnnotations_on [OF c(1) ps] buildNFTAnnotations_on [OF c(2) c(3)] g e t ..
  qed
qed

text \<open>
  Two generator configurations of the same engine type, and two environments in which
  \<^verbatim>\<open>NETLIFY\<close> is set to different values.
\<close>

theorem buildNFTAnnotations_inputs_witness:
  "buildNFTAnnotations (\<lambda>g. if g = NoAssetEngine then Library else g) sample_getNodeAPIName
      netlify_env (sample_options True NoAssetEngine) ''out''
   = buildNFTAnnotations (\<lambda>g. if g = NoAssetEngine then Library else g) sample_getNodeAPIName
      [''NETLIFY'' \<mapsto> ''1'', ''HOME'' \<mapsto> ''/root''] (sample_options True Library) ''out''"
  using buildNFTAnnotations_inputs
    [of "\<lambda>g. if g = NoAssetEngine then Library else g" "sample_options True NoAssetEngine"
        "sample_options True Library" netlify_env "[''NETLIFY'' \<mapsto> ''1'', ''HOME'' \<mapsto> ''/root'']"
        sample_getNodeAPIName "''out''"]
  by (simp add: sample_options_def netlify_env_def truthy_def)

text \<open>
  C2 as the spec states it fails: with the same configuration, the text differs between an
  environment without \<^verbatim>\<open>NETLIFY\<close> and one with it.
\<close>

theorem buildNFTAnnotations_environment_counterexample:
  "buildNFTAnnotations id sample_getNodeAPIName Map.empty (sample_options False Binary) ''out''
   \<noteq> buildNFTAnnotations id sample_getNodeAPIName netlify_env (sample_options False Binary) ''out''"
  by code_simp

lemma join_empties: "join sep (map (\<lambda>x. []) xs) = concat (replicate (length xs - 1) sep)"
proof (induction xs)
  case Nil
  then show ?case by simp
next
  case (Cons x xs)
  then show ?case by (cases xs) simp_all
qed

text \<open>
  C7 (as amended). \<^verbatim>\<open>buildNFTAnnotations\<close> is total: it has no \<^verbatim>\<open>throw\<close> and returns a
  string for every input. It returns the empty string when \<^verbatim>\<open>dataProxy\<close> is true or
  \<^verbatim>\<open>platforms\<close> is undefined. For an engine type that needs no asset, each platform's
  annotation degrades to the empty string, but the result is not empty: it is the line
  breaks that join the platforms' annotations, followed by the schema annotation.
\<close>

theorem buildNFTAnnotations_degrades:
  "(dataProxy opts \<longrightarrow> buildNFTAnnotations gce gnn env opts outdir = [])
   \<and> (platforms opts = None \<longrightarrow> buildNFTAnnotations gce gnn env opts outdir = [])
   \<and> (\<forall>ps. \<not> dataProxy opts \<and> platforms opts = Some ps \<longrightarrow>
         buildNFTAnnotations gce gnn env opts outdir \<noteq> []
         \<and> (gce (generator opts) = NoAssetEngine \<longrightarrow>
              buildNFTAnnotations gce gnn env opts outdir
              = replicate (length (effectivePlatforms env ps) - 1) (CHR 0x0A)
                @ buildNFTAnnotation (esm opts) ''schema.prisma'' outdir))"
proof (intro conjI allI impI)
  show "buildNFTAnnotations gce gnn env opts outdir = []" if "dataProxy opts"
    using that by (simp add: buildNFTAnnotations_off)
  show "buildNFTAnnotations gce gnn env opts outdir = []" if "platforms opts = None"
    using that by (simp add: buildNFTAnnotations_off)
next
  fix ps assume a: "\<not> dataProxy opts \<and> platforms opts = Some ps"
  then show "buildNFTAnnotations gce gnn env opts outdir \<noteq> []"
    by (simp add: buildNFTAnnotations_on buildNFTAnnotation_nonempty)
  assume n: "gce (generator opts) = NoAssetEngine"
  have "concat (replicate k [c]) = replicate k c" for k and c :: char
    by (induction k) simp_all
  then show "buildNFTAnnotations gce gnn env opts outdir
              = replicate (length (effectivePlatforms env ps) - 1) (CHR 0x0A)
                @ buildNFTAnnotation (esm opts) ''schema.prisma'' outdir"
    using a n by (simp add: buildNFTAnnotations_on getQueryEngineFilename_def truthy_def join_empties)
qed

theorem buildNFTAnnotations_degrades_witness:
  "buildNFTAnnotations id sample_getNodeAPIName Map.empty
       ((sample_options False Binary)\<lparr>dataProxy := True\<rparr>) ''out'' = []
   \<and> buildNFTAnnotations id sample_getNodeAPIName Map.empty
       ((sample_options False Binary)\<lparr>platforms := None\<rparr>) ''out'' = []
   \<and> buildNFTAnnotations id sample_getNodeAPIName Map.empty (sample_options True NoAssetEngine) ''out''
     = [CHR 0x0A] @ buildNFTAnnotation True ''schema.prisma'' ''out''
   \<and> buildNFTAnnotations id sample_getNodeAPIName Map.empty (sample_options True NoAssetEngine) ''out''
     \<noteq> []"
  using buildNFTAnnotations_degrades [of "(sample_options False Binary)\<lparr>dataProxy := True\<rparr>" id sample_getNodeAPIName Map.empty "''out''"]
    buildNFTAnnotations_degrades [of "(sample_options False Binary)\<lparr>platforms := None\<rparr>" id sample_getNodeAPIName Map.empty "''out''"]
    buildNFTAnnotations_degrades [of "sample_options True NoAssetEngine" id sample_getNodeAPIName Map.empty "''out''"]
  by (simp add: sample_options_def effectivePlatforms_def truthy_def)

text \<open>
  C7 as the spec states it fails for an engine type that needs no asset: the result is not
  the empty string.
\<close>

theorem buildNFTAnnotations_no_asset_counterexample:
  "buildNFTAnnotations id sample_getNodeAPIName Map.empty (sample_options False NoAssetEngine) ''out''
   \<noteq> []"
  by code_simp

lemma buildNFTAnnotations_emit:
  "buildNFTAnnotations gce gnn env opts outdir =
     (if dataProxy opts \<or> platforms opts = None then []
      else emitAnnotations (esm opts) outdir (engineFilenames gce gnn env opts))"
proof (cases "dataProxy opts \<or> platforms opts = None")
  case True
  then show ?thesis by (simp add: buildNFTAnnotations_off)
next
  case False
  then obtain ps where ps: "platforms opts = Some ps" by auto
  have "(if truthy x then buildNFTAnnotation b (the x) outdir else []) =
        (case (if truthy x then x else None) of None \<Rightarrow> [] | Some f \<Rightarrow> buildNFTAnnotation b f outdir)"
    for x b by (cases x) (simp_all add: truthy_def)
  then show ?thesis
    using False ps
    by (simp add: buildNFTAnnotations_on emitAnnotations_def engineFilenames_def Let_def o_def)
qed

subsection \<open>The file names in the annotations\<close>

lemma splitSlash_nonempty: "splitSlash p \<noteq> []"
  by (induction p) (auto split: list.splits)

lemma splitSlash_append_slash:
  "splitSlash (x @ CHR ''/'' # y) = splitSlash x @ splitSlash y"
proof (induction x)
  case Nil
  then show ?case using splitSlash_nonempty [of y] by (auto split: list.splits)
next
  case (Cons c x)
  then show ?case using splitSlash_nonempty [of x] by (auto split: list.splits)
qed

lemma normalizeSegments_append:
  "normalizeSegments a res (xs @ ys) = normalizeSegments a (normalizeSegments a res xs) ys"
  by (induction xs arbitrary: res) (auto split: list.splits)

lemma join_snoc: "join sep (xs @ [s]) = (if xs = [] then s else join sep xs @ sep @ s)"
  by (induction sep xs rule: join.induct) auto

lemma properName_noslash: "properName s \<Longrightarrow> CHR ''/'' \<notin> set s"
  by (auto simp: properName_def plainName_def)

lemma normalizeString_last:
  assumes "properName s"
  shows "normalizeString (x @ CHR ''/'' # s) a = s
   \<or> (\<exists>pre. normalizeString (x @ CHR ''/'' # s) a = pre @ CHR ''/'' # s)"
proof -
  let ?r = "normalizeSegments a [] (splitSlash x)"
  have seg: "splitSlash s = [s]" using assms by (simp add: splitSlash_noslash properName_noslash)
  have "normalizeSegments a ?r [s] = s # ?r" using assms by (simp add: properName_def)
  then have "normalizeSegments a [] (splitSlash (x @ CHR ''/'' # s)) = s # ?r"
    unfolding splitSlash_append_slash seg normalizeSegments_append by simp
  then have "normalizeString (x @ CHR ''/'' # s) a =
      (if rev ?r = [] then s else join ''/'' (rev ?r) @ ''/'' @ s)"
    unfolding normalizeString_def by (simp only: rev.simps join_snoc)
  then show ?thesis by (cases "rev ?r = []") auto
qed

lemma properName_last: "properName s \<Longrightarrow> last (x @ CHR ''/'' # s) \<noteq> CHR ''/''"
  using properName_noslash [of s] by (auto simp: properName_def dest: last_in_set)

lemma path_normalize_last:
  assumes "properName s"
  shows "path_normalize (x @ CHR ''/'' # s) = s
   \<or> (\<exists>pre. path_normalize (x @ CHR ''/'' # s) = pre @ CHR ''/'' # s)"
proof -
  let ?p = "x @ CHR ''/'' # s"
  let ?abs = "hd ?p = CHR ''/''"
  have l: "last ?p \<noteq> CHR ''/''" using assms by (rule properName_last)
  have ne: "?p \<noteq> []" by simp
  have sne: "s \<noteq> []" using assms by (simp add: properName_def)
  from normalizeString_last [OF assms, of x "\<not> ?abs"]
  consider "normalizeString ?p (\<not> ?abs) = s"
    | pre where "normalizeString ?p (\<not> ?abs) = pre @ CHR ''/'' # s" by blast
  then show ?thesis
  proof cases
    case 1
    have "path_normalize ?p = (if ?abs then CHR ''/'' # s else s)"
      unfolding path_normalize_def Let_def 1 using l ne sne by simp
    then show ?thesis by (cases ?abs) (auto intro: exI [of _ "[]"])
  next
    case 2
    have "path_normalize ?p = (if ?abs then (CHR ''/'' # pre) @ CHR ''/'' # s else pre @ CHR ''/'' # s)"
      unfolding path_normalize_def Let_def 2 using l ne by simp
    then show ?thesis by (cases ?abs) (auto simp del: append_Cons)
  qed
qed

lemma path_join_last:
  assumes "properName s"
  shows "path_join [folder, s] = s \<or> (\<exists>pre. path_join [folder, s] = pre @ CHR ''/'' # s)"
proof (cases "folder = []")
  case True
  have sne: "s \<noteq> []" and dots: "s \<noteq> ''.''" "s \<noteq> ''..''"
    using assms by (simp_all add: properName_def)
  have ns: "CHR ''/'' \<notin> set s" using assms by (rule properName_noslash)
  have h: "hd s \<noteq> CHR ''/''" "last s \<noteq> CHR ''/''"
    using ns sne by (auto dest: hd_in_set last_in_set)
  have n: "normalizeString s a = s" for a
    unfolding normalizeString_def splitSlash_noslash [OF ns] using sne dots by simp
  have "path_normalize s = s"
    unfolding path_normalize_def Let_def n using sne h by simp
  then show ?thesis using True sne by (simp add: path_join_def)
next
  case False
  have sne: "s \<noteq> []" using assms by (simp add: properName_def)
  have "path_join [folder, s] = path_normalize (folder @ CHR ''/'' # s)"
    using False sne by (simp add: path_join_def)
  then show ?thesis using path_normalize_last [OF assms, of folder] by simp
qed

lemma quoteJSONChar_slash: "quoteJSONChar (CHR ''/'') = ''/''"
  by (simp add: quoteJSONChar_def)

lemma basename_noslash: "CHR ''/'' \<notin> set f \<Longrightarrow> basename f = f"
  by (simp add: basename_def splitSlash_noslash)

lemma basename_after_slash: "CHR ''/'' \<notin> set f \<Longrightarrow> basename (x @ CHR ''/'' # f) = f"
  using splitSlash_nonempty [of x]
  by (simp add: basename_def splitSlash_append_slash splitSlash_noslash)

lemma basename_quoted_path:
  assumes "properName f"
  shows "basename (concat (map quoteJSONChar (path_join [folder, f]))) = f"
proof -
  have ns: "CHR ''/'' \<notin> set f" using assms by (rule properName_noslash)
  have q: "concat (map quoteJSONChar f) = f"
    using assms by (simp add: properName_def concat_quote_plain)
  from path_join_last [OF assms, of folder] show ?thesis
  proof
    assume "path_join [folder, f] = f"
    then show ?thesis using q ns by (simp add: basename_noslash)
  next
    assume "\<exists>pre. path_join [folder, f] = pre @ CHR ''/'' # f"
    then obtain pre where "path_join [folder, f] = pre @ CHR ''/'' # f" by blast
    then have "concat (map quoteJSONChar (path_join [folder, f]))
        = concat (map quoteJSONChar pre) @ CHR ''/'' # f"
      using q by (simp add: quoteJSONChar_slash)
    then show ?thesis using ns by (simp add: basename_after_slash)
  qed
qed


lemma hexDigit_plain: "hexDigit n \<noteq> CHR 0x22 \<and> hexDigit n \<noteq> CHR 0x5C"
proof -
  have "n mod 16 < length ''0123456789abcdef''" by simp
  then have "hexDigit n \<in> set ''0123456789abcdef''"
    unfolding hexDigit_def by (rule nth_mem)
  then show ?thesis by auto
qed

lemma stringLiterals_char:
  "stringLiterals (Some lit) (quoteJSONChar c @ rest)
   = stringLiterals (Some (lit @ quoteJSONChar c)) rest"
  using hexDigit_plain [of "of_char c div 16"] hexDigit_plain [of "of_char c mod 16"]
  by (simp add: quoteJSONChar_def)

lemma stringLiterals_body:
  "stringLiterals (Some lit) (concat (map quoteJSONChar s) @ CHR 0x22 # rest)
   = (lit @ concat (map quoteJSONChar s)) # stringLiterals None rest"
  by (induction s arbitrary: lit) (simp_all add: stringLiterals_char)

lemma stringLiterals_JSON:
  "stringLiterals None (JSON_stringify s @ rest)
   = concat (map quoteJSONChar s) # stringLiterals None rest"
  using stringLiterals_body [of "[]" s rest] by (simp add: JSON_stringify_def)

lemma referenced_annotation:
  assumes "properName f"
  shows "map basename (stringLiterals None (buildNFTAnnotation flag f outdir @ rest))
     = (if flag then [f] else [f, f]) @ map basename (stringLiterals None rest)"
proof -
  have ns: "CHR ''/'' \<notin> set f" using assms by (rule properName_noslash)
  have q: "concat (map quoteJSONChar f) = f"
    using assms by (simp add: properName_def concat_quote_plain)
  show ?thesis
    by (simp add: buildNFTAnnotation_def stringLiterals_JSON basename_quoted_path [OF assms] q
        basename_noslash [OF ns])
qed


lemma join_Cons: "join sep (x # xs) = x @ (if xs = [] then [] else sep @ join sep xs)"
  by (cases xs) simp_all

lemma referenced_join:
  assumes "\<forall>f. Some f \<in> set names \<longrightarrow> properName f"
  shows "map basename
       (stringLiterals None
          (join [CHR 0x0A]
             (map (\<lambda>n. case n of None \<Rightarrow> [] | Some f \<Rightarrow> buildNFTAnnotation flag f outdir) names)
           @ rest))
     = concat (map (\<lambda>n. case n of None \<Rightarrow> [] | Some f \<Rightarrow> if flag then [f] else [f, f]) names)
       @ map basename (stringLiterals None rest)"
  using assms
proof (induction names)
  case Nil
  then show ?case by simp
next
  case (Cons n names)
  let ?g = "\<lambda>n. case n of None \<Rightarrow> [] | Some f \<Rightarrow> buildNFTAnnotation flag f outdir"
  let ?tail = "(if names = [] then [] else [CHR 0x0A] @ join [CHR 0x0A] (map ?g names)) @ rest"
  have ih: "map basename (stringLiterals None (join [CHR 0x0A] (map ?g names) @ rest))
     = concat (map (\<lambda>n. case n of None \<Rightarrow> [] | Some f \<Rightarrow> if flag then [f] else [f, f]) names)
       @ map basename (stringLiterals None rest)"
    using Cons by simp
  have t: "map basename (stringLiterals None ?tail)
     = concat (map (\<lambda>n. case n of None \<Rightarrow> [] | Some f \<Rightarrow> if flag then [f] else [f, f]) names)
       @ map basename (stringLiterals None rest)"
    using ih by (cases "names = []") simp_all
  have j: "join [CHR 0x0A] (map ?g (n # names)) @ rest = ?g n @ ?tail"
    by (simp add: join_Cons)
  show ?case
  proof (cases n)
    case None
    then show ?thesis unfolding j using t by simp
  next
    case (Some f)
    then have "properName f" using Cons.prems by simp
    from referenced_annotation [OF this, of flag outdir ?tail]
    show ?thesis unfolding j using t Some by simp
  qed
qed

lemma properName_schema: "properName ''schema.prisma''"
  by (simp add: properName_def plainName_code)

lemma referenced_emitAnnotations:
  assumes "\<forall>f. Some f \<in> set names \<longrightarrow> properName f"
  shows "referencedFiles (emitAnnotations flag outdir names)
     = concat (map (\<lambda>n. case n of None \<Rightarrow> [] | Some f \<Rightarrow> if flag then [f] else [f, f]) names)
       @ (if flag then [''schema.prisma''] else [''schema.prisma'', ''schema.prisma''])"
proof -
  have "map basename (stringLiterals None (buildNFTAnnotation flag ''schema.prisma'' outdir))
      = (if flag then [''schema.prisma''] else [''schema.prisma'', ''schema.prisma''])"
    using referenced_annotation [OF properName_schema, of flag outdir "[]"] by simp
  then show ?thesis
    unfolding referencedFiles_def emitAnnotations_def referenced_join [OF assms] by simp
qed

lemma set_resolved:
  "set (concat (map (\<lambda>n. case n of None \<Rightarrow> [] | Some f \<Rightarrow> if flag then [f] else [f, f]) names))
   = {f. Some f \<in> set names}"
  by (induction names) (auto split: option.splits)

text \<open>
  C6. With the engine type, the platform list and the output directory fixed, the texts
  emitted for the two values of the \<^verbatim>\<open>esm\<close> flag refer to the same set of file names:
  the set of the last path segments of the string literals of the text is the same for both
  values, namely the resolved engine file names and \<^verbatim>\<open>schema.prisma\<close> (and no name at all
  when \<^verbatim>\<open>dataProxy\<close> is true or \<^verbatim>\<open>platforms\<close> is undefined). The resolved names are proper
  names; the output directory is any string.
\<close>

theorem esm_changes_syntax_only:
  assumes "\<forall>f. Some f \<in> set (engineFilenames gce gnn env opts) \<longrightarrow> properName f"
  shows "set (referencedFiles (buildNFTAnnotations gce gnn env (opts\<lparr>esm := True\<rparr>) outdir))
       = set (referencedFiles (buildNFTAnnotations gce gnn env (opts\<lparr>esm := False\<rparr>) outdir))
    \<and> (\<not> dataProxy opts \<and> platforms opts \<noteq> None \<longrightarrow>
         set (referencedFiles (buildNFTAnnotations gce gnn env (opts\<lparr>esm := flag\<rparr>) outdir))
         = {f. Some f \<in> set (engineFilenames gce gnn env opts)} \<union> {''schema.prisma''})
    \<and> (dataProxy opts \<or> platforms opts = None \<longrightarrow>
         referencedFiles (buildNFTAnnotations gce gnn env (opts\<lparr>esm := flag\<rparr>) outdir) = [])"
proof -
  have e: "engineFilenames gce gnn env (opts\<lparr>esm := b\<rparr>) = engineFilenames gce gnn env opts" for b
    by (simp add: engineFilenames_def split: option.split)
  have b: "buildNFTAnnotations gce gnn env (opts\<lparr>esm := b\<rparr>) outdir =
     (if dataProxy opts \<or> platforms opts = None then []
      else emitAnnotations b outdir (engineFilenames gce gnn env opts))" for b
    using buildNFTAnnotations_emit [of gce gnn env "opts\<lparr>esm := b\<rparr>" outdir] by (simp add: e)
  have r: "set (referencedFiles (emitAnnotations b outdir (engineFilenames gce gnn env opts)))
      = {f. Some f \<in> set (engineFilenames gce gnn env opts)} \<union> {''schema.prisma''}" for b
    unfolding referenced_emitAnnotations [OF assms] by (auto simp: set_resolved)
  have off: "referencedFiles [] = []" by (simp add: referencedFiles_def)
  show ?thesis
  proof (cases "dataProxy opts \<or> platforms opts = None")
    case True
    then show ?thesis by (auto simp: b off)
  next
    case False
    then show ?thesis by (auto simp: b r)
  qed
qed

text \<open>
  The Binary engine on two platforms: one literal per file in the \<^verbatim>\<open>esm\<close> syntax, two in
  the other, with the same names.
\<close>

lemma sample_referenced:
  "referencedFiles (buildNFTAnnotations id sample_getNodeAPIName Map.empty (sample_options True Binary) ''out'')
     = [''query-engine-darwin'', ''query-engine-debian-openssl-1.1.x'', ''schema.prisma'']
   \<and> referencedFiles (buildNFTAnnotations id sample_getNodeAPIName Map.empty (sample_options False Binary) ''out'')
     = [''query-engine-darwin'', ''query-engine-darwin'', ''query-engine-debian-openssl-1.1.x'',
        ''query-engine-debian-openssl-1.1.x'', ''schema.prisma'', ''schema.prisma'']"
  by code_simp

theorem esm_changes_syntax_only_witness:
  "set (referencedFiles
          (buildNFTAnnotations id sample_getNodeAPIName Map.empty (sample_options True Binary) ''out''))
     = set (referencedFiles
          (buildNFTAnnotations id sample_getNodeAPIName Map.empty (sample_options False Binary) ''out''))
   \<and> set (referencedFiles
          (buildNFTAnnotations id sample_getNodeAPIName Map.empty (sample_options True Binary) ''out''))
     = {''query-engine-darwin'', ''query-engine-debian-openssl-1.1.x'', ''schema.prisma''}
   \<and> referencedFiles
        (buildNFTAnnotations id sample_getNodeAPIName Map.empty (sample_options True Binary) ''out'')
     = [''query-engine-darwin'', ''query-engine-debian-openssl-1.1.x'', ''schema.prisma'']
   \<and> referencedFiles
        (buildNFTAnnotations id sample_getNodeAPIName Map.empty (sample_options False Binary) ''out'')
     = [''query-engine-darwin'', ''query-engine-darwin'', ''query-engine-debian-openssl-1.1.x'',
        ''query-engine-debian-openssl-1.1.x'', ''schema.prisma'', ''schema.prisma'']"
proof -
  have n: "engineFilenames id sample_getNodeAPIName Map.empty (sample_options False Binary)
     = [Some ''query-engine-darwin'', Some ''query-engine-debian-openssl-1.1.x'']"
    by (simp add: engineFilenames_def sample_options_def effectivePlatforms_def truthy_def
        getQueryEngineFilename_def)
  have p: "\<forall>f. Some f \<in> set (engineFilenames id sample_getNodeAPIName Map.empty
      (sample_options False Binary)) \<longrightarrow> properName f"
    unfolding n by (auto simp: properName_def plainName_code)
  have o: "(sample_options False Binary)\<lparr>esm := b\<rparr> = sample_options b Binary" for b
    by (simp add: sample_options_def)
  have d: "\<not> dataProxy (sample_options False Binary)" "platforms (sample_options False Binary) \<noteq> None"
    by (simp_all add: sample_options_def)
  from esm_changes_syntax_only [OF p, where flag = True and outdir = "''out''"] d
  have "set (referencedFiles
          (buildNFTAnnotations id sample_getNodeAPIName Map.empty (sample_options True Binary) ''out''))
     = set (referencedFiles
          (buildNFTAnnotations id sample_getNodeAPIName Map.empty (sample_options False Binary) ''out''))"
    and "set (referencedFiles
          (buildNFTAnnotations id sample_getNodeAPIName Map.empty (sample_options True Binary) ''out''))
     = {''query-engine-darwin'', ''query-engine-debian-openssl-1.1.x'', ''schema.prisma''}"
    unfolding o n by auto
  then show ?thesis using sample_referenced by blast
qed

section \<open>Properties of the placeholder module\<close>

lemma notInitializedMessage_instruction:
  "includes_str notInitializedMessage ''Please run '' \<and> includes_str notInitializedMessage ''prisma generate''"
  by code_simp

text \<open>
  C8. For every argument list, \<^verbatim>\<open>new PrismaClient(...)\<close> throws an \<^verbatim>\<open>Error\<close> whose message
  is the one fixed text, which tells the user to run \<^verbatim>\<open>prisma generate\<close>; two argument
  lists give the same outcome.
\<close>

theorem PrismaClient_always_throws:
  "(PrismaClient args :: error + 'i) = Inl (Error notInitializedMessage)
   \<and> (PrismaClient args :: error + 'i) = PrismaClient args'
   \<and> isl (PrismaClient args :: error + 'i)
   \<and> includes_str notInitializedMessage ''prisma generate''"
  using notInitializedMessage_instruction by (simp add: PrismaClient_def)

section \<open>Properties of the orchestrator\<close>

subsection \<open>The fixtures\<close>

lemma andThen_assoc: "andThen (andThen m f) g = andThen m (\<lambda>x. andThen (f x) g)"
  by (auto simp: andThen_def fun_eq_iff split: prod.splits sum.splits)

lemma andThen_ret: "andThen (ret x) f = f x"
  by (simp add: andThen_def ret_def fun_eq_iff)

lemma main_executeFixtures:
  "main (Inr given) rt =
     andThen (beforeFixtures given rt) (\<lambda>names. executeFixtures (withDefaults given) rt names)"
  by (simp add: main_def beforeFixtures_def runTests_def Let_def andThen_assoc andThen_ret)

lemma main_reaches_fixtures:
  "beforeFixtures given rt w0 = (Inr names, w) \<Longrightarrow>
   main (Inr given) rt w0 = executeFixtures (withDefaults given) rt names w"
  by (simp add: main_executeFixtures andThen_def)

lemma andThen_Inr:
  "andThen m f w = (Inr y, w') \<Longrightarrow> \<exists>x w1. m w = (Inr x, w1) \<and> f x w1 = (Inr y, w')"
  by (auto simp: andThen_def split: prod.splits sum.splits)

lemma beforeFixtures_selected:
  assumes "beforeFixtures given rt w0 = (Inr selected, w)"
  shows "\<exists>discovered. discoverTests rt = Inr discovered
           \<and> selected = selectTests (positional given) discovered"
proof -
  let ?args = "withDefaults given"
  from assms [unfolded beforeFixtures_def Let_def]
  obtain u1 w1 where "andThen (cleanUp ?args rt) (\<lambda>u.
         andThen (saveOriginal rt) (\<lambda>u.
         andThen (rewriteManifests rt) (\<lambda>u.
         andThen (packTarballs ?args rt) (\<lambda>u.
         andThen (fromResult (discoverTests rt)) (\<lambda>discovered.
         andThen (run rt PnpmStorePath) (\<lambda>u.
         andThen (run rt DockerBuild) (\<lambda>u.
           ret (selectTests (positional ?args) discovered)))))))) w1 = (Inr selected, w)"
    by (blast dest: andThen_Inr)
  then obtain u2 w2 where "andThen (saveOriginal rt) (\<lambda>u.
         andThen (rewriteManifests rt) (\<lambda>u.
         andThen (packTarballs ?args rt) (\<lambda>u.
         andThen (fromResult (discoverTests rt)) (\<lambda>discovered.
         andThen (run rt PnpmStorePath) (\<lambda>u.
         andThen (run rt DockerBuild) (\<lambda>u.
           ret (selectTests (positional ?args) discovered))))))) w2 = (Inr selected, w)"
    by (blast dest: andThen_Inr)
  then obtain u3 w3 where "andThen (rewriteManifests rt) (\<lambda>u.
         andThen (packTarballs ?args rt) (\<lambda>u.
         andThen (fromResult (discoverTests rt)) (\<lambda>discovered.
         andThen (run rt PnpmStorePath) (\<lambda>u.
         andThen (run rt DockerBuild) (\<lambda>u.
           ret (selectTests (positional ?args) discovered)))))) w3 = (Inr selected, w)"
    by (blast dest: andThen_Inr)
  then obtain u4 w4 where "andThen (packTarballs ?args rt) (\<lambda>u.
         andThen (fromResult (discoverTests rt)) (\<lambda>discovered.
         andThen (run rt PnpmStorePath) (\<lambda>u.
         andThen (run rt DockerBuild) (\<lambda>u.
           ret (selectTests (positional ?args) discovered))))) w4 = (Inr selected, w)"
    by (blast dest: andThen_Inr)
  then obtain u5 w5 where "andThen (fromResult (discoverTests rt)) (\<lambda>discovered.
         andThen (run rt PnpmStorePath) (\<lambda>u.
         andThen (run rt DockerBuild) (\<lambda>u.
           ret (selectTests (positional ?args) discovered)))) w5 = (Inr selected, w)"
    by (blast dest: andThen_Inr)
  then obtain discovered w6 where d: "fromResult (discoverTests rt) w5 = (Inr discovered, w6)"
    and "andThen (run rt PnpmStorePath) (\<lambda>u.
         andThen (run rt DockerBuild) (\<lambda>u.
           ret (selectTests (positional ?args) discovered))) w6 = (Inr selected, w)"
    by (blast dest: andThen_Inr)
  then obtain u7 w7 where "andThen (run rt DockerBuild) (\<lambda>u.
           ret (selectTests (positional ?args) discovered)) w7 = (Inr selected, w)"
    by (blast dest: andThen_Inr)
  then obtain u8 w8 where "ret (selectTests (positional ?args) discovered) w8 = (Inr selected, w)"
    by (blast dest: andThen_Inr)
  then have "selected = selectTests (positional given) discovered"
    by (simp add: ret_def withDefaults_def)
  moreover have "discoverTests rt = Inr discovered"
    using d by (cases "discoverTests rt") (simp_all add: fromResult_def)
  ultimately show ?thesis by blast
qed

lemma sample_beforeFixtures:
  "fst (beforeFixtures (sample_args\<lparr>positional := [''esm'', ''issues'']\<rparr>) sample_runtime sample_world)
     = Inr [''esm-cjs'', ''issues/123'']"
  by code_simp

lemma zx_nothrow: "zx True output w = (Inr output, w)"
  by (simp add: zx_def ret_def)

lemma inBandLoop_nothrow:
  "inBandLoop (map (\<lambda>(i, n). (i, (\<lambda>u. zx True (dockerRun rt n)))) ixs) names acc w
   = (Inr (acc @ map (\<lambda>(i, n). assignName (dockerRun rt n) (at names i)) ixs), w)"
proof (induction ixs arbitrary: acc)
  case Nil
  then show ?case by (simp add: ret_def)
next
  case (Cons a ixs)
  obtain i n where a: "a = (i, n)" by (cases a)
  show ?case unfolding a using Cons [of "acc @ [assignName (dockerRun rt n) (at names i)]"]
    by (simp add: andThen_def zx_nothrow)
qed

lemma promiseAll_nothrow:
  "promiseAll (map (\<lambda>n. zx True (dockerRun rt n)) names) w = (Inr (map (dockerRun rt) names), w)"
  by (induction names) (simp_all add: ret_def andThen_def zx_nothrow)

lemma runJobs_eq:
  "runJobs args rt names w = (Inr (map (\<lambda>n. assignName (dockerRun rt n) (Some n)) names), w)"
proof (cases "runInBand args = Some True")
  case True
  have z: "zip [0 ..< length names] (map (\<lambda>path. (\<lambda>u. zx True (dockerRun rt path))) names)
      = map (\<lambda>(i, n). (i, (\<lambda>u. zx True (dockerRun rt n)))) (zip [0 ..< length names] names)"
    by (simp add: zip_map2)
  have m: "map (\<lambda>(i, n). assignName (dockerRun rt n) (at names i)) (zip [0 ..< length names] names)
        = map (\<lambda>n. assignName (dockerRun rt n) (Some n)) names"
    by (rule nth_equalityI) (simp_all add: at_def)
  show ?thesis using True
    by (simp add: runJobs_def dockerJobs_def z inBandLoop_nothrow m)
next
  case False
  have m: "map (\<lambda>(result, i). assignName result (at names i))
          (zip (map (dockerRun rt) names) [0 ..< length names])
        = map (\<lambda>n. assignName (dockerRun rt n) (Some n)) names"
    by (rule nth_equalityI) (simp_all add: at_def)
  show ?thesis using False
    by (simp add: runJobs_def dockerJobs_def inParallel_def o_def promiseAll_nothrow andThen_def
        ret_def m)
qed

text \<open>
  C5. With a non-empty list of positional filter arguments, the fixtures that are run are
  exactly the discovered ones whose name contains at least one of the filters as a
  substring, in the order of discovery; with an empty list all discovered fixtures are
  run. The jobs that are run are the selected names: the result list carries one result per
  selected name, and a run of \<^verbatim>\<open>main\<close> that comes to execute fixtures executes the
  selection, by the positional arguments, of the discovered names.
\<close>

theorem selectTests_filters:
  "(filters \<noteq> [] \<longrightarrow>
      selectTests filters names = filter (\<lambda>p. \<exists>a\<in>set filters. \<exists>u v. p = u @ a @ v) names)
   \<and> (filters = [] \<longrightarrow> selectTests filters names = names)
   \<and> (\<exists>results. runJobs args rt (selectTests filters names) w = (Inr results, w)
         \<and> map name results = map Some (selectTests filters names))
   \<and> (\<forall>selected w0. beforeFixtures given rt w0 = (Inr selected, w) \<longrightarrow>
         (\<exists>discovered. discoverTests rt = Inr discovered
            \<and> selected = selectTests (positional given) discovered)
         \<and> main (Inr given) rt w0 = executeFixtures (withDefaults given) rt selected w)"
proof -
  have some: "filters \<noteq> [] \<longrightarrow>
      selectTests filters names = filter (\<lambda>p. \<exists>a\<in>set filters. \<exists>u v. p = u @ a @ v) names"
    by (simp add: selectTests_def list_ex_iff includes_str_iff)
  have none: "filters = [] \<longrightarrow> selectTests filters names = names"
    by (simp add: selectTests_def)
  have jobs: "\<exists>results. runJobs args rt (selectTests filters names) w = (Inr results, w)
         \<and> map name results = map Some (selectTests filters names)"
    by (simp add: runJobs_eq assignName_def o_def)
  have run: "\<forall>selected w0. beforeFixtures given rt w0 = (Inr selected, w) \<longrightarrow>
         (\<exists>discovered. discoverTests rt = Inr discovered
            \<and> selected = selectTests (positional given) discovered)
         \<and> main (Inr given) rt w0 = executeFixtures (withDefaults given) rt selected w"
    using beforeFixtures_selected main_reaches_fixtures by blast
  show ?thesis by (intro conjI some none jobs run)
qed

lemma sample_dockerRun:
  "exitCode (dockerRun sample_runtime n) = (if n = ''issues/123'' then 1 else 0)"
  by (simp add: sample_runtime_def)

lemma sample_selection:
  "selectTests [''esm'', ''issues''] [''esm-cjs'', ''prisma-client-imports'', ''issues/123'']
     = [''esm-cjs'', ''issues/123'']"
  by code_simp

text \<open>Two filters over three discovered fixtures, and no filter.\<close>

theorem selectTests_filters_witness:
  "selectTests [''esm'', ''issues''] [''esm-cjs'', ''prisma-client-imports'', ''issues/123'']
     = [''esm-cjs'', ''issues/123'']
   \<and> filter (\<lambda>p. \<exists>a\<in>set [''esm'', ''issues'']. \<exists>u v. p = u @ a @ v)
        [''esm-cjs'', ''prisma-client-imports'', ''issues/123'']
     = [''esm-cjs'', ''issues/123'']
   \<and> selectTests [] [''esm-cjs'', ''prisma-client-imports'', ''issues/123'']
     = [''esm-cjs'', ''prisma-client-imports'', ''issues/123'']
   \<and> (\<exists>results.
         runJobs sample_args sample_runtime [''esm-cjs'', ''issues/123''] sample_world
           = (Inr results, sample_world)
         \<and> map name results = [Some ''esm-cjs'', Some ''issues/123''])
   \<and> fst (beforeFixtures (sample_args\<lparr>positional := [''esm'', ''issues'']\<rparr>) sample_runtime sample_world)
     = Inr [''esm-cjs'', ''issues/123'']
   \<and> main (Inr (sample_args\<lparr>positional := [''esm'', ''issues'']\<rparr>)) sample_runtime sample_world
     = executeFixtures (withDefaults (sample_args\<lparr>positional := [''esm'', ''issues'']\<rparr>)) sample_runtime
         [''esm-cjs'', ''issues/123'']
         (snd (beforeFixtures (sample_args\<lparr>positional := [''esm'', ''issues'']\<rparr>) sample_runtime
                sample_world))"
proof -
  let ?names = "[''esm-cjs'', ''prisma-client-imports'', ''issues/123'']"
  let ?given = "sample_args\<lparr>positional := [''esm'', ''issues'']\<rparr>"
  let ?w = "snd (beforeFixtures ?given sample_runtime sample_world)"
  note t = selectTests_filters [of "[''esm'', ''issues'']" ?names sample_args sample_runtime ?w ?given]
  have ne: "[''esm'', ''issues''] \<noteq> ([] :: string list)" by simp
  from t ne have f: "selectTests [''esm'', ''issues''] ?names
      = filter (\<lambda>p. \<exists>a\<in>set [''esm'', ''issues'']. \<exists>u v. p = u @ a @ v) ?names"
    by blast
  from selectTests_filters [of "[''esm'', ''issues'']" ?names sample_args sample_runtime sample_world ?given]
  obtain results where r: "runJobs sample_args sample_runtime
        (selectTests [''esm'', ''issues''] ?names) sample_world = (Inr results, sample_world)"
      "map name results = map Some (selectTests [''esm'', ''issues''] ?names)"
    by blast
  have e: "selectTests [] ?names = ?names"
    using selectTests_filters [of "[]" ?names sample_args sample_runtime sample_world ?given] by blast
  have j: "\<exists>results. runJobs sample_args sample_runtime [''esm-cjs'', ''issues/123''] sample_world
           = (Inr results, sample_world)
         \<and> map name results = [Some ''esm-cjs'', Some ''issues/123'']"
    using r unfolding sample_selection by (intro exI [of _ results]) simp
  have b: "beforeFixtures ?given sample_runtime sample_world = (Inr [''esm-cjs'', ''issues/123''], ?w)"
    using sample_beforeFixtures by (metis prod.collapse)
  from t b have m: "main (Inr ?given) sample_runtime sample_world
     = executeFixtures (withDefaults ?given) sample_runtime [''esm-cjs'', ''issues/123''] ?w"
    by blast
  show ?thesis
    using f [symmetric] e j sample_beforeFixtures m unfolding sample_selection
    by (simp only: simp_thms)
qed

text \<open>
  C9. Whatever the exit codes of the containers, and in both modes, running the jobs
  resolves: no fixture ends the loop or rejects the joined promise, and the result list
  holds one result per selected fixture, in order, with the fixture's name and its exit
  code.
\<close>

theorem fixtures_all_run:
  "\<exists>results. runJobs args rt names w = (Inr results, w)
     \<and> map name results = map Some names
     \<and> map exitCode results = map (\<lambda>n. exitCode (dockerRun rt n)) names
     \<and> length results = length names"
  by (simp add: runJobs_eq assignName_def o_def)

text \<open>Three fixtures, the second of which fails.\<close>

theorem fixtures_all_run_witness:
  "\<exists>results.
     runJobs sample_args sample_runtime [''esm-cjs'', ''issues/123'', ''prisma-client-imports'']
       sample_world = (Inr results, sample_world)
     \<and> map name results = [Some ''esm-cjs'', Some ''issues/123'', Some ''prisma-client-imports'']
     \<and> map exitCode results = [0, 1, 0]"
proof -
  from fixtures_all_run [of sample_args sample_runtime
      "[''esm-cjs'', ''issues/123'', ''prisma-client-imports'']" sample_world]
  obtain results where r: "runJobs sample_args sample_runtime
       [''esm-cjs'', ''issues/123'', ''prisma-client-imports''] sample_world = (Inr results, sample_world)"
    "map name results = map Some [''esm-cjs'', ''issues/123'', ''prisma-client-imports'']"
    "map exitCode results = map (\<lambda>n. exitCode (dockerRun sample_runtime n))
       [''esm-cjs'', ''issues/123'', ''prisma-client-imports'']"
    by blast
  show ?thesis
    using r by (intro exI [of _ results]) (simp add: sample_dockerRun)
qed






subsection \<open>The rewrite of the manifests\<close>

lemma fold_update_keys:
  "set ks \<subseteq> fst ` set deps \<Longrightarrow>
   map fst (fold (\<lambda>key d. if startsWith key p then AList.update key (g key) d else d) ks deps)
   = map fst deps"
proof (induction ks arbitrary: deps)
  case Nil
  then show ?case by simp
next
  case (Cons k ks)
  let ?d = "if startsWith k p then AList.update k (g k) deps else deps"
  have "map fst ?d = map fst deps" using Cons.prems by (simp add: update_keys)
  moreover from this have "set ks \<subseteq> fst ` set ?d"
    using Cons.prems by (metis list.set_map set_subset_Cons subset_trans)
  ultimately show ?case using Cons.IH [of ?d] by simp
qed

lemma fold_update_map_of:
  "map_of (fold (\<lambda>key d. if startsWith key p then AList.update key (g key) d else d) ks deps) k
   = (if k \<in> set ks \<and> startsWith k p then Some (g k) else map_of deps k)"
proof (induction ks arbitrary: deps)
  case Nil
  then show ?case by simp
next
  case (Cons a ks)
  show ?case
    by (simp add: Cons.IH update_conv')
qed

lemma rewritePkgJson_only: "rewritePkgJson pkg = Inr pkg' \<Longrightarrow> onlyPrismaDepsChanged pkg pkg'"
  by (auto simp: rewritePkgJson_def onlyPrismaDepsChanged_def rewriteDependencies_def fold_update_keys
      fold_update_map_of split: option.splits)

lemma module_rewrite:
  "files sample_world ''/repo/packages/cli/package.json'' = Some sample_cli
   \<and> require module_runtime ''/repo/packages/cli'' = Inr sample_cli_module
   \<and> fst (rewriteManifests module_runtime sample_world) = Inr ()
   \<and> rewritePkgJson sample_cli_module
     = Inr \<lparr>dependencies = Some [(''@prisma/engines'', ''/tmp/prisma-engines-0.0.0.tgz'')],
            otherFields = [(''version'', ''5.7.0'')]\<rparr>
   \<and> files (snd (rewriteManifests module_runtime sample_world)) ''/repo/packages/cli/package.json''
     = Some \<lparr>dependencies = Some [(''@prisma/engines'', ''/tmp/prisma-engines-0.0.0.tgz'')],
             otherFields = [(''version'', ''5.7.0'')]\<rparr>"
  by code_simp

text \<open>
  C10 fails on the code. The loop of lines 71-79 changes, in the object it is given, only
  the \<^verbatim>\<open>@prisma/\<close> entries of \<^verbatim>\<open>dependencies\<close>; but the object is what line 68 loads with
  \<^verbatim>\<open>require\<close> from the package folder, the exports of the package's main module, and not
  the manifest, and it is written over the manifest. Here the manifest of \<^verbatim>\<open>cli\<close> holds a
  name, a version and two dependencies; after the rewrite the file holds the module's
  object with its one dependency rewritten: the manifest's other entry and its other
  fields are not written back.
\<close>

theorem rewrite_writes_what_require_returns:
  "files sample_world ''/repo/packages/cli/package.json'' = Some sample_cli
   \<and> require module_runtime ''/repo/packages/cli'' = Inr sample_cli_module
   \<and> fst (rewriteManifests module_runtime sample_world) = Inr ()
   \<and> files (snd (rewriteManifests module_runtime sample_world)) ''/repo/packages/cli/package.json''
     = Some \<lparr>dependencies = Some [(''@prisma/engines'', ''/tmp/prisma-engines-0.0.0.tgz'')],
             otherFields = [(''version'', ''5.7.0'')]\<rparr>
   \<and> onlyPrismaDepsChanged sample_cli_module
         \<lparr>dependencies = Some [(''@prisma/engines'', ''/tmp/prisma-engines-0.0.0.tgz'')],
          otherFields = [(''version'', ''5.7.0'')]\<rparr>
   \<and> \<not> onlyPrismaDepsChanged sample_cli
         \<lparr>dependencies = Some [(''@prisma/engines'', ''/tmp/prisma-engines-0.0.0.tgz'')],
          otherFields = [(''version'', ''5.7.0'')]\<rparr>"
proof -
  have "\<not> onlyPrismaDepsChanged sample_cli
         \<lparr>dependencies = Some [(''@prisma/engines'', ''/tmp/prisma-engines-0.0.0.tgz'')],
          otherFields = [(''version'', ''5.7.0'')]\<rparr>"
    by (simp add: onlyPrismaDepsChanged_def sample_cli_def)
  moreover have "onlyPrismaDepsChanged sample_cli_module
         \<lparr>dependencies = Some [(''@prisma/engines'', ''/tmp/prisma-engines-0.0.0.tgz'')],
          otherFields = [(''version'', ''5.7.0'')]\<rparr>"
    using module_rewrite by (intro rewritePkgJson_only) blast
  ultimately show ?thesis using module_rewrite by blast
qed

subsection \<open>The failed build\<close>

text \<open>
  C3 fails on the code. When the build throws, \<^verbatim>\<open>restoreOriginal\<close> is executed and
  \<^verbatim>\<open>main\<close> rejects with the error of the build; but all packages were saved to one
  file, \<^verbatim>\<open>/tmp/client.package.json\<close> here, which holds the manifest of the package saved
  last, and the restore copies it over every manifest: after the failure the manifest of
  \<^verbatim>\<open>cli\<close> is the one of \<^verbatim>\<open>client\<close>, not its own from before the run.
\<close>

theorem restore_clobbers_manifests:
  "files sample_world (manifestPath ''/repo/packages/cli'') = Some sample_cli
   \<and> snapshotPath (failing PnpmBuild) = ''/tmp/client.package.json''
   \<and> fst (tryBlock (withDefaults sample_args) (failing PnpmBuild)
          (snd (rewriteManifests (failing PnpmBuild) (snd (saveOriginal (failing PnpmBuild) sample_world)))))
     = Inl (Thrown (ProcessError ''command failed''))
   \<and> fst (main (Inr sample_args) (failing PnpmBuild) sample_world)
     = Inl (Thrown (ProcessError ''command failed''))
   \<and> files (snd (main (Inr sample_args) (failing PnpmBuild) sample_world))
        (manifestPath ''/repo/packages/cli'') = Some sample_client
   \<and> files (snd (main (Inr sample_args) (failing PnpmBuild) sample_world))
        (manifestPath ''/repo/packages/client'') = Some sample_client
   \<and> sample_client \<noteq> sample_cli"
  by code_simp

end
